theory Spec2Isabelle
  imports Main "HOL-Library.Sublist" "HOL-Library.Multiset"
begin

section \<open>Theme toggle (components/ui/ThemeToggle)\<close>

text \<open>
  The browser's \<^verbatim>\<open>localStorage\<close> is a map from keys to strings. The component
  holds the \<^verbatim>\<open>darkMode\<close> flag of \<^verbatim>\<open>useState(false)\<close>; the class \<^verbatim>\<open>dark\<close> on
  the document element is one more flag.
\<close>

record theme_state =
  darkMode :: bool
  localStorage :: "string \<rightharpoonup> string"
  dark_class :: bool

text \<open>JavaScript's \<^verbatim>\<open>String(b)\<close> on a boolean.\<close>

definition String_of_bool :: "bool \<Rightarrow> string" where
  "String_of_bool b = (if b then ''true'' else ''false'')"

text \<open>
  The mount effect: \<^verbatim>\<open>isDarkMode = localStorage.getItem('darkMode') === 'true'\<close>,
  then \<^verbatim>\<open>setDarkMode(isDarkMode)\<close> and the class is added or removed.
\<close>

definition theme_mount :: "theme_state \<Rightarrow> theme_state" where
  "theme_mount s =
     (let isDarkMode = (localStorage s ''darkMode'' = Some ''true'')
      in s\<lparr>darkMode := isDarkMode, dark_class := isDarkMode\<rparr>)"

text \<open>
  \<^verbatim>\<open>toggleDarkMode\<close>: \<^verbatim>\<open>newDarkMode = !darkMode\<close>, the state is set, the flag is
  stored as \<^verbatim>\<open>String(newDarkMode)\<close>, and the class follows the new value.
\<close>

definition toggleDarkMode :: "theme_state \<Rightarrow> theme_state" where
  "toggleDarkMode s =
     (let newDarkMode = \<not> darkMode s
      in s\<lparr>darkMode := newDarkMode,
            localStorage := (localStorage s)(''darkMode'' \<mapsto> String_of_bool newDarkMode),
            dark_class := newDarkMode\<rparr>)"

text \<open>
  A reload throws the component state and the document away, keeps the storage, and
  runs the mount effect on a fresh \<^verbatim>\<open>useState(false)\<close>.
\<close>

definition theme_reload :: "theme_state \<Rightarrow> theme_state" where
  "theme_reload s =
     theme_mount \<lparr>darkMode = False, localStorage = localStorage s, dark_class = False\<rparr>"

section \<open>Notifications dropdown (components/ui/NotificationsDropdown.tsx)\<close>

record notification =
  n_id :: string
  n_user_id :: string
  n_content :: string
  n_task_id :: "string option"
  n_message_id :: "string option"
  n_read :: bool

text \<open>
  The state \<^verbatim>\<open>markAsRead\<close> touches: the rows of the backend table
  \<^verbatim>\<open>notifications\<close> and the component's local list.
\<close>

record dropdown_state =
  notifications_table :: "notification list"
  notifications :: "notification list"

text \<open>
  The request \<^verbatim>\<open>.update({ read: true }).eq('id', notificationId)\<close> on the table:
  the rows whose id is the given one get the new column value.
\<close>

definition update_read_eq_id :: "string \<Rightarrow> notification list \<Rightarrow> notification list" where
  "update_read_eq_id notificationId rows =
     map (\<lambda>r. if n_id r = notificationId then r\<lparr>n_read := True\<rparr> else r) rows"

text \<open>
  The local patch:
  \<^verbatim>\<open>prev.map(n => n.id === notificationId ? { ...n, read: true } : n)\<close>.
\<close>

definition patch_read :: "string \<Rightarrow> notification list \<Rightarrow> notification list" where
  "patch_read notificationId prev =
     map (\<lambda>notification.
            if n_id notification = notificationId then notification\<lparr>n_read := True\<rparr>
            else notification) prev"

text \<open>
  \<^verbatim>\<open>markAsRead\<close>. The second argument is the backend's answer to the update: an
  error (the request changed nothing, the code throws, logs and leaves the local list
  alone) or none.
\<close>

definition markAsRead :: "string \<Rightarrow> string option \<Rightarrow> dropdown_state \<Rightarrow> dropdown_state" where
  "markAsRead notificationId error s =
     (case error of
        Some e \<Rightarrow> s
      | None \<Rightarrow>
          s\<lparr>notifications_table := update_read_eq_id notificationId (notifications_table s),
            notifications := patch_read notificationId (notifications s)\<rparr>)"

section \<open>Rows of the database (types/database)\<close>

datatype UserRole = admin | manager | worker

datatype TaskStatus = pending | in_progress | completed

datatype TaskPriority = low | medium | high

record Profile =
  p_id :: string
  p_full_name :: string
  p_role :: UserRole

record Message =
  m_id :: string
  m_sender_id :: string
  m_receiver_id :: string
  m_content :: string
  m_read :: bool
  m_created_at :: string

text \<open>
  A task row. The date columns are the strings the backend sends; a task of the task
  page carries three counts more, as an extension of this record.
\<close>

record Task =
  t_id :: string
  t_title :: string
  t_description :: "string option"
  t_status :: TaskStatus
  t_priority :: TaskPriority
  t_created_by :: string
  t_assigned_to :: "string option"
  t_due_date :: "string option"
  t_created_at :: string

record TaskWithCounts = Task +
  comment_count :: nat
  attachment_count :: nat
  unread_notifications :: nat

section \<open>Direct messages (pages/Messages): fetchMessages\<close>

record messages_state =
  messages_table :: "Message list"
  messages :: "Message list"
  messages_loading :: bool

text \<open>
  The select of \<^verbatim>\<open>fetchMessages\<close>: the rows between the two users, in both
  directions, ordered by \<^verbatim>\<open>created_at\<close> ascending (\<open>ord\<close> is the backend's order of
  the timestamp column).
\<close>

definition select_conversation ::
  "(string \<Rightarrow> 'k::linorder) \<Rightarrow> string \<Rightarrow> string \<Rightarrow> Message list \<Rightarrow> Message list" where
  "select_conversation ord user_id contact_id rows =
     sort_key (\<lambda>m. ord (m_created_at m))
       (filter (\<lambda>m. (m_sender_id m = user_id \<and> m_receiver_id m = contact_id)
                   \<or> (m_sender_id m = contact_id \<and> m_receiver_id m = user_id)) rows)"

text \<open>
  The update of \<^verbatim>\<open>fetchMessages\<close>:
  \<^verbatim>\<open>.update({ read: true }).eq('receiver_id', user.id).eq('sender_id', selectedContact.id).eq('read', false)\<close>.
\<close>

definition mark_received_read :: "string \<Rightarrow> string \<Rightarrow> Message list \<Rightarrow> Message list" where
  "mark_received_read user_id contact_id rows =
     map (\<lambda>m. if m_receiver_id m = user_id \<and> m_sender_id m = contact_id \<and> m_read m = False
               then m\<lparr>m_read := True\<rparr> else m) rows"

text \<open>
  \<^verbatim>\<open>fetchMessages\<close>. \<open>select_error\<close> and \<open>update_error\<close> are the backend's answers to
  the two requests. With no user or no contact the function returns at once. An error of
  the select is thrown before the update is sent; the answer to the update is not looked
  at by the code, and a failed update changes no row.
\<close>

definition fetchMessages ::
  "(string \<Rightarrow> 'k::linorder) \<Rightarrow> Profile option \<Rightarrow> Profile option \<Rightarrow> string option \<Rightarrow>
     string option \<Rightarrow> messages_state \<Rightarrow> messages_state" where
  "fetchMessages ord user selectedContact select_error update_error s =
     (case user of
        None \<Rightarrow> s
      | Some u \<Rightarrow>
          (case selectedContact of
             None \<Rightarrow> s
           | Some c \<Rightarrow>
               (case select_error of
                  Some e \<Rightarrow> s\<lparr>messages_loading := False\<rparr>
                | None \<Rightarrow>
                    s\<lparr>messages := select_conversation ord (p_id u) (p_id c) (messages_table s),
                      messages_table :=
                        (case update_error of
                           None \<Rightarrow> mark_received_read (p_id u) (p_id c) (messages_table s)
                         | Some e \<Rightarrow> messages_table s),
                      messages_loading := False\<rparr>)))"

section \<open>Task page (pages/Tasks): fetchTasks\<close>

text \<open>
  The backend as \<^verbatim>\<open>fetchTasks\<close> sees it: the rows of \<^verbatim>\<open>tasks\<close>, the answer to the
  main query, and the three counts per task (\<open>None\<close> for a count the backend did not
  give, which the code turns into 0).
\<close>

record tasks_backend =
  tasks_table :: "Task list"
  fetchError :: "string option"
  commentCount :: "string \<Rightarrow> nat option"
  attachmentCount :: "string \<Rightarrow> nat option"
  notificationCount :: "string \<Rightarrow> string \<Rightarrow> nat option"

record tasks_page =
  page_tasks :: "TaskWithCounts list"
  page_loading :: bool
  page_error :: string

text \<open>
  The main query: every row, restricted by
  \<^verbatim>\<open>.or(`assigned_to.eq.${user.id},created_by.eq.${user.id}`)\<close> when the role is
  neither admin nor manager.
\<close>

definition tasks_query :: "Profile \<Rightarrow> Task list \<Rightarrow> Task list" where
  "tasks_query user rows =
     (if p_role user \<noteq> admin \<and> p_role user \<noteq> manager
      then filter (\<lambda>t. t_assigned_to t = Some (p_id user) \<or> t_created_by t = p_id user) rows
      else rows)"

definition or_zero :: "nat option \<Rightarrow> nat" where
  "or_zero c = (case c of None \<Rightarrow> 0 | Some n \<Rightarrow> n)"

definition with_counts :: "Profile \<Rightarrow> tasks_backend \<Rightarrow> Task \<Rightarrow> TaskWithCounts" where
  "with_counts user b task =
     Task.extend task
       (TaskWithCounts.fields
          (or_zero (commentCount b (t_id task)))
          (or_zero (attachmentCount b (t_id task)))
          (or_zero (notificationCount b (t_id task) (p_id user))))"

definition fetchTasks :: "Profile option \<Rightarrow> tasks_backend \<Rightarrow> tasks_page \<Rightarrow> tasks_page" where
  "fetchTasks user b s =
     (case user of
        None \<Rightarrow> s
      | Some u \<Rightarrow>
          (case fetchError b of
             Some e \<Rightarrow> s\<lparr>page_loading := False, page_error := ''Failed to load tasks''\<rparr>
           | None \<Rightarrow>
               s\<lparr>page_tasks := map (with_counts u b) (tasks_query u (tasks_table b)),
                 page_loading := False, page_error := ''''\<rparr>))"

section \<open>Task page (pages/Tasks): applyFiltersAndSort\<close>

text \<open>
  The platform's string functions are parameters of the model:
  \<open>lower\<close> is \<^verbatim>\<open>String.prototype.toLowerCase\<close>, \<open>getTime\<close> is
  \<^verbatim>\<open>new Date(s).getTime()\<close> on the timestamps the backend sends, and \<open>ck\<close> is the
  collation key by which \<^verbatim>\<open>localeCompare\<close> orders strings in the platform's locale.
  \<^verbatim>\<open>s.includes(q)\<close> is the contiguous-substring test.
\<close>

definition String_includes :: "string \<Rightarrow> string \<Rightarrow> bool" where
  "String_includes s q = sublist q s"

text \<open>The string a status or a priority is at run time.\<close>

fun TaskStatus_str :: "TaskStatus \<Rightarrow> string" where
  "TaskStatus_str pending = ''pending''"
| "TaskStatus_str in_progress = ''in_progress''"
| "TaskStatus_str completed = ''completed''"

fun TaskPriority_str :: "TaskPriority \<Rightarrow> string" where
  "TaskPriority_str low = ''low''"
| "TaskPriority_str medium = ''medium''"
| "TaskPriority_str high = ''high''"

text \<open>The five values the sort select of the page offers, and the two directions.\<close>

datatype sort_field = created_at | due_date | title | priority | status

datatype sort_direction = asc | desc

text \<open>\<^verbatim>\<open>priorityOrder = { high: 3, medium: 2, low: 1 }\<close> and
  \<^verbatim>\<open>statusOrder = { pending: 1, in_progress: 2, completed: 3 }\<close>.\<close>

fun priorityOrder :: "TaskPriority \<Rightarrow> int" where
  "priorityOrder high = 3"
| "priorityOrder medium = 2"
| "priorityOrder low = 1"

fun statusOrder :: "TaskStatus \<Rightarrow> int" where
  "statusOrder pending = 1"
| "statusOrder in_progress = 2"
| "statusOrder completed = 3"

text \<open>\<^verbatim>\<open>a[sortField] ? new Date(a[sortField]).getTime() : 0\<close>: a missing date and an
  empty string are falsy.\<close>

definition date_value :: "(string \<Rightarrow> int) \<Rightarrow> string option \<Rightarrow> int" where
  "date_value getTime d =
     (case d of None \<Rightarrow> 0 | Some s \<Rightarrow> if s = [] then 0 else getTime s)"

text \<open>\<^verbatim>\<open>x.localeCompare(y)\<close>: negative, zero or positive, by the collation key.\<close>

definition localeCompare :: "(string \<Rightarrow> 'k::linorder) \<Rightarrow> string \<Rightarrow> string \<Rightarrow> int" where
  "localeCompare ck x y = (if ck x < ck y then - 1 else if ck x = ck y then 0 else 1)"

datatype js_value = Str string | Num int

text \<open>The value the comparator takes from a task, by sort field.\<close>

fun sort_value ::
  "(string \<Rightarrow> string) \<Rightarrow> (string \<Rightarrow> int) \<Rightarrow> sort_field \<Rightarrow> 'a Task_scheme \<Rightarrow> js_value" where
  "sort_value lower getTime created_at a = Num (date_value getTime (Some (t_created_at a)))"
| "sort_value lower getTime due_date a = Num (date_value getTime (t_due_date a))"
| "sort_value lower getTime title a = Str (lower (t_title a))"
| "sort_value lower getTime priority a = Num (priorityOrder (t_priority a))"
| "sort_value lower getTime status a = Num (statusOrder (t_status a))"

text \<open>
  The end of the comparator: two strings are compared by \<^verbatim>\<open>localeCompare\<close>, two
  numbers by subtraction, each in the chosen direction. A string against a number does
  not arise (both values come from one field); the subtraction would be NaN, which the
  sort reads as 0.
\<close>

fun compare_values ::
  "(string \<Rightarrow> 'k::linorder) \<Rightarrow> sort_direction \<Rightarrow> js_value \<Rightarrow> js_value \<Rightarrow> int" where
  "compare_values ck d (Str valueA) (Str valueB) =
     (if d = asc then localeCompare ck valueA valueB else localeCompare ck valueB valueA)"
| "compare_values ck d (Num valueA) (Num valueB) =
     (if d = asc then valueA - valueB else valueB - valueA)"
| "compare_values ck d _ _ = 0"

definition compare_tasks ::
  "(string \<Rightarrow> string) \<Rightarrow> (string \<Rightarrow> int) \<Rightarrow> (string \<Rightarrow> 'k::linorder) \<Rightarrow> sort_field \<Rightarrow>
     sort_direction \<Rightarrow> 'a Task_scheme \<Rightarrow> 'a Task_scheme \<Rightarrow> int" where
  "compare_tasks lower getTime ck sortField sortDirection a b =
     compare_values ck sortDirection
       (sort_value lower getTime sortField a) (sort_value lower getTime sortField b)"

text \<open>
  \<^verbatim>\<open>Array.prototype.sort\<close> with a comparator is a stable sort: an element stays in
  front of the later elements it does not compare greater than.
\<close>

fun insert_sorted :: "('a \<Rightarrow> 'a \<Rightarrow> int) \<Rightarrow> 'a \<Rightarrow> 'a list \<Rightarrow> 'a list" where
  "insert_sorted cmp x [] = [x]"
| "insert_sorted cmp x (y # ys) =
     (if cmp x y \<le> 0 then x # y # ys else y # insert_sorted cmp x ys)"

definition Array_sort :: "('a \<Rightarrow> 'a \<Rightarrow> int) \<Rightarrow> 'a list \<Rightarrow> 'a list" where
  "Array_sort cmp xs = foldr (insert_sorted cmp) xs []"

definition applyFiltersAndSort ::
  "(string \<Rightarrow> string) \<Rightarrow> (string \<Rightarrow> int) \<Rightarrow> (string \<Rightarrow> 'k::linorder) \<Rightarrow> 'a Task_scheme list \<Rightarrow>
     string \<Rightarrow> string \<Rightarrow> string \<Rightarrow> sort_field \<Rightarrow> sort_direction \<Rightarrow> 'a Task_scheme list" where
  "applyFiltersAndSort lower getTime ck tasks searchQuery statusFilter priorityFilter
       sortField sortDirection =
     (let result = tasks;
          result =
            (if searchQuery \<noteq> [] then
               (let query = lower searchQuery
                in filter (\<lambda>task. String_includes (lower (t_title task)) query
                            \<or> (case t_description task of
                                  None \<Rightarrow> False
                                | Some d \<Rightarrow> d \<noteq> [] \<and> String_includes (lower d) query)) result)
             else result);
          result =
            (if statusFilter \<noteq> ''all''
             then filter (\<lambda>task. TaskStatus_str (t_status task) = statusFilter) result
             else result);
          result =
            (if priorityFilter \<noteq> ''all''
             then filter (\<lambda>task. TaskPriority_str (t_priority task) = priorityFilter) result
             else result)
      in Array_sort (compare_tasks lower getTime ck sortField sortDirection) result)"

subsection \<open>What the page is said to show\<close>

text \<open>
  These definitions follow the words of the claim and use nothing of the code above. A
  text contains the query, letter case apart, when its lower-cased form has the
  lower-cased query as a substring; a task without description contains nothing in it.
\<close>

definition contains_ci :: "(string \<Rightarrow> string) \<Rightarrow> string option \<Rightarrow> string \<Rightarrow> bool" where
  "contains_ci lower text q =
     (case text of None \<Rightarrow> False | Some s \<Rightarrow> sublist (lower q) (lower s))"

text \<open>A filter is \<^verbatim>\<open>all\<close> or names the status, or the priority, of the task.\<close>

fun status_allowed :: "string \<Rightarrow> TaskStatus \<Rightarrow> bool" where
  "status_allowed f pending = (f = ''all'' \<or> f = ''pending'')"
| "status_allowed f in_progress = (f = ''all'' \<or> f = ''in_progress'')"
| "status_allowed f completed = (f = ''all'' \<or> f = ''completed'')"

fun priority_allowed :: "string \<Rightarrow> TaskPriority \<Rightarrow> bool" where
  "priority_allowed f low = (f = ''all'' \<or> f = ''low'')"
| "priority_allowed f medium = (f = ''all'' \<or> f = ''medium'')"
| "priority_allowed f high = (f = ''all'' \<or> f = ''high'')"

definition task_matches ::
  "(string \<Rightarrow> string) \<Rightarrow> string \<Rightarrow> string \<Rightarrow> string \<Rightarrow> 'a Task_scheme \<Rightarrow> bool" where
  "task_matches lower searchQuery statusFilter priorityFilter t =
     ((contains_ci lower (Some (t_title t)) searchQuery
         \<or> contains_ci lower (t_description t) searchQuery)
      \<and> status_allowed statusFilter (t_status t)
      \<and> priority_allowed priorityFilter (t_priority t))"

text \<open>Low is below medium is below high; pending is before in progress is before
  completed.\<close>

fun priority_le :: "TaskPriority \<Rightarrow> TaskPriority \<Rightarrow> bool" where
  "priority_le low p = True"
| "priority_le medium p = (p = medium \<or> p = high)"
| "priority_le high p = (p = high)"

fun status_le :: "TaskStatus \<Rightarrow> TaskStatus \<Rightarrow> bool" where
  "status_le pending s = True"
| "status_le in_progress s = (s = in_progress \<or> s = completed)"
| "status_le completed s = (s = completed)"

text \<open>The time of a date column; a task with no due date is ordered as time 0.\<close>

definition time_of :: "(string \<Rightarrow> int) \<Rightarrow> string option \<Rightarrow> int" where
  "time_of getTime d = (case d of None \<Rightarrow> 0 | Some s \<Rightarrow> getTime s)"

definition in_direction :: "sort_direction \<Rightarrow> ('v \<Rightarrow> 'v \<Rightarrow> bool) \<Rightarrow> 'v \<Rightarrow> 'v \<Rightarrow> bool" where
  "in_direction d le x y = (case d of asc \<Rightarrow> le x y | desc \<Rightarrow> le y x)"

text \<open>
  Task \<open>a\<close> may stand before task \<open>b\<close>: by creation or due time, by the collation of
  the lower-cased titles, by priority or by status, in the chosen direction.
\<close>

fun may_precede ::
  "(string \<Rightarrow> string) \<Rightarrow> (string \<Rightarrow> int) \<Rightarrow> (string \<Rightarrow> 'k::linorder) \<Rightarrow> sort_field \<Rightarrow>
     sort_direction \<Rightarrow> 'a Task_scheme \<Rightarrow> 'a Task_scheme \<Rightarrow> bool" where
  "may_precede lower getTime ck created_at d a b =
     in_direction d (\<le>) (getTime (t_created_at a)) (getTime (t_created_at b))"
| "may_precede lower getTime ck due_date d a b =
     in_direction d (\<le>) (time_of getTime (t_due_date a)) (time_of getTime (t_due_date b))"
| "may_precede lower getTime ck title d a b =
     in_direction d (\<le>) (ck (lower (t_title a))) (ck (lower (t_title b)))"
| "may_precede lower getTime ck priority d a b =
     in_direction d priority_le (t_priority a) (t_priority b)"
| "may_precede lower getTime ck status d a b =
     in_direction d status_le (t_status a) (t_status b)"

text \<open>The rows as the backend sends them: a date column that is present is a
  timestamp, not the empty string.\<close>

definition dates_present :: "'a Task_scheme \<Rightarrow> bool" where
  "dates_present t = (t_created_at t \<noteq> [] \<and> t_due_date t \<noteq> Some [])"

section \<open>Session store (store/authStore): signIn and signUp\<close>

text \<open>
  A JavaScript error value: its class (what \<^verbatim>\<open>instanceof\<close> tests), its message and
  the \<^verbatim>\<open>code\<close> a backend error carries. \<^verbatim>\<open>new Error(m)\<close> is a plain error with the
  message alone.
\<close>

datatype error_class = AuthError | PostgrestError | PlainError

record js_error =
  e_class :: error_class
  e_message :: string
  e_code :: "string option"

definition new_Error :: "string \<Rightarrow> js_error" where
  "new_Error m = \<lparr>e_class = PlainError, e_message = m, e_code = None\<rparr>"

text \<open>
  What an awaited backend call gives: data with no error, an error in the returned
  object, or an exception.
\<close>

datatype 'a answer = Data 'a | ErrorReturned js_error | Thrown js_error

text \<open>
  The calls the store makes, in the order it makes them, with the timer waits between
  retries.
\<close>

datatype auth_event =
    SignInWithPassword string string
  | AuthSignUp string string string
  | SelectProfile string
  | InsertProfile Profile
  | SignOut
  | Delay nat
  | SetUser "Profile option"

text \<open>
  The world of the store: the session of the backend client (the id of its user), the
  auth identities and the \<^verbatim>\<open>profiles\<close> rows of the backend, the \<^verbatim>\<open>user\<close> of the
  store, and the log of calls. \<^verbatim>\<open>supabase.auth.signOut()\<close> is taken not to throw.
\<close>

record auth_world =
  session :: "string option"
  identities :: "string list"
  profiles :: "Profile list"
  store_user :: "Profile option"
  calls :: "auth_event list"

definition emit :: "auth_event \<Rightarrow> auth_world \<Rightarrow> auth_world" where
  "emit ev w = w\<lparr>calls := calls w @ [ev]\<rparr>"

definition auth_signOut :: "auth_world \<Rightarrow> auth_world" where
  "auth_signOut w = emit SignOut (w\<lparr>session := None\<rparr>)"

definition set_user :: "Profile option \<Rightarrow> auth_world \<Rightarrow> auth_world" where
  "set_user u w = emit (SetUser u) (w\<lparr>store_user := u\<rparr>)"

definition maxRetries :: nat where
  "maxRetries = 3"

text \<open>\<^verbatim>\<open>lastError?.message || fallback\<close>: the fallback stands in for a missing or empty
  message.\<close>

definition message_or :: "js_error option \<Rightarrow> string \<Rightarrow> string" where
  "message_or lastError fallback =
     (case lastError of
        None \<Rightarrow> fallback
      | Some e \<Rightarrow> if e_message e = [] then fallback else e_message e)"

text \<open>
  The retry loop of \<^verbatim>\<open>signIn\<close> (and of \<^verbatim>\<open>loadUser\<close>). \<open>fetch n\<close> is the answer to
  the profile select made when \<^verbatim>\<open>retryCount\<close> is \<open>n\<close>. The loop returns the profile,
  the last error and the world. A returned error and an exception are handled alike:
  the error is kept, the count goes up, and the loop waits \<^verbatim>\<open>1000 * retryCount\<close> ms
  before the next attempt, or stops when the count has reached the maximum. Data, also
  \<^verbatim>\<open>null\<close> data, ends the loop.
\<close>

function fetch_profile_loop ::
  "string \<Rightarrow> (nat \<Rightarrow> Profile option answer) \<Rightarrow> nat \<Rightarrow> js_error option \<Rightarrow> auth_world \<Rightarrow>
     Profile option \<times> js_error option \<times> auth_world" where
  "fetch_profile_loop uid fetch retryCount lastError w =
     (if retryCount < maxRetries then
        (let w1 = emit (SelectProfile uid) w in
         case fetch retryCount of
           Data d \<Rightarrow> (d, lastError, w1)
         | ErrorReturned e \<Rightarrow>
             (if retryCount + 1 < maxRetries
              then fetch_profile_loop uid fetch (retryCount + 1) (Some e)
                     (emit (Delay (1000 * (retryCount + 1))) w1)
              else (None, Some e, w1))
         | Thrown e \<Rightarrow>
             (if retryCount + 1 < maxRetries
              then fetch_profile_loop uid fetch (retryCount + 1) (Some e)
                     (emit (Delay (1000 * (retryCount + 1))) w1)
              else (None, Some e, w1)))
      else (None, lastError, w))"
  by pat_completeness auto
termination
  by (relation "measure (\<lambda>(uid, fetch, retryCount, lastError, w). maxRetries - retryCount)") auto

text \<open>
  The \<^verbatim>\<open>try\<close> block of \<^verbatim>\<open>signIn\<close>: \<open>Inl\<close> is the error it throws. \<open>auth\<close> is the
  answer of \<^verbatim>\<open>signInWithPassword\<close>, its data the user of the new session if there is
  one.
\<close>

definition signIn_try ::
  "string \<Rightarrow> string \<Rightarrow> string option answer \<Rightarrow> (nat \<Rightarrow> Profile option answer) \<Rightarrow> auth_world \<Rightarrow>
     (js_error + unit) \<times> auth_world" where
  "signIn_try email password auth fetch w =
     (let w1 = emit (SignInWithPassword email password) w in
      case auth of
        Thrown e \<Rightarrow> (Inl e, w1)
      | ErrorReturned signInError \<Rightarrow> (Inl signInError, w1)
      | Data None \<Rightarrow> (Inl (new_Error ''No session after sign in''), w1)
      | Data (Some uid) \<Rightarrow>
          (case fetch_profile_loop uid fetch 0 None (w1\<lparr>session := Some uid\<rparr>) of
             (None, lastError, w2) \<Rightarrow>
               (Inl (new_Error (message_or lastError ''Failed to load profile'')), auth_signOut w2)
           | (Some profile, lastError, w2) \<Rightarrow> (Inr (), set_user (Some profile) w2)))"

text \<open>
  The \<^verbatim>\<open>catch\<close> block of \<^verbatim>\<open>signIn\<close>: sign out, clear the user, then map the error.
\<close>

definition signIn_catch :: "js_error \<Rightarrow> auth_world \<Rightarrow> (js_error + unit) \<times> auth_world" where
  "signIn_catch error w =
     (let w1 = set_user None (auth_signOut w) in
      if e_class error = AuthError \<and> String_includes (e_message error) ''Invalid login credentials''
      then (Inl (new_Error ''Invalid email or password''), w1)
      else if e_class error = PostgrestError
      then (Inl (new_Error ''Database error occurred''), w1)
      else (Inl error, w1))"

definition signIn ::
  "string \<Rightarrow> string \<Rightarrow> string option answer \<Rightarrow> (nat \<Rightarrow> Profile option answer) \<Rightarrow> auth_world \<Rightarrow>
     (js_error + unit) \<times> auth_world" where
  "signIn email password auth fetch w =
     (case signIn_try email password auth fetch w of
        (Inl error, w1) \<Rightarrow> signIn_catch error w1
      | (Inr u, w1) \<Rightarrow> (Inr u, w1))"

text \<open>
  The retry loop of \<^verbatim>\<open>signUp\<close>. \<open>ins n\<close> is the answer to the insert made when
  \<^verbatim>\<open>retryCount\<close> is \<open>n\<close>; an insert without error adds the row and ends
  \<^verbatim>\<open>signUp\<close>. The row is \<^verbatim>\<open>{ id: authData.user.id, full_name: fullName, role: 'worker' }\<close>.
  The result is \<open>None\<close> for that return, or the last error once the attempts are used
  up.
\<close>

definition new_profile_row :: "string \<Rightarrow> string \<Rightarrow> Profile" where
  "new_profile_row uid fullName = \<lparr>p_id = uid, p_full_name = fullName, p_role = worker\<rparr>"

function insert_profile_loop ::
  "Profile \<Rightarrow> (nat \<Rightarrow> unit answer) \<Rightarrow> nat \<Rightarrow> js_error option \<Rightarrow> auth_world \<Rightarrow>
     (js_error option) option \<times> auth_world" where
  "insert_profile_loop row ins retryCount lastError w =
     (if retryCount < maxRetries then
        (let w1 = emit (InsertProfile row) w in
         case ins retryCount of
           Data u \<Rightarrow> (None, w1\<lparr>profiles := profiles w1 @ [row]\<rparr>)
         | ErrorReturned profileError \<Rightarrow>
             (if retryCount + 1 < maxRetries
              then insert_profile_loop row ins (retryCount + 1) (Some profileError)
                     (emit (Delay (1000 * (retryCount + 1))) w1)
              else insert_profile_loop row ins (retryCount + 1) (Some profileError) w1)
         | Thrown e \<Rightarrow>
             (if retryCount + 1 < maxRetries
              then insert_profile_loop row ins (retryCount + 1) (Some e)
                     (emit (Delay (1000 * (retryCount + 1))) w1)
              else insert_profile_loop row ins (retryCount + 1) (Some e) w1))
      else (Some lastError, w))"
  by pat_completeness auto
termination
  by (relation "measure (\<lambda>(row, ins, retryCount, lastError, w). maxRetries - retryCount)") auto

text \<open>
  \<^verbatim>\<open>signUp\<close>. \<open>auth\<close> is the answer of \<^verbatim>\<open>supabase.auth.signUp\<close>, its data the id of
  the identity the backend created, if any. The \<^verbatim>\<open>catch\<close> block maps an
  already-registered error and rethrows every other error; it makes no backend call.
\<close>

definition signUp_try ::
  "string \<Rightarrow> string \<Rightarrow> string \<Rightarrow> string option answer \<Rightarrow> (nat \<Rightarrow> unit answer) \<Rightarrow> auth_world \<Rightarrow>
     (js_error + unit) \<times> auth_world" where
  "signUp_try email password fullName auth ins w =
     (let w1 = emit (AuthSignUp email password fullName) w in
      case auth of
        Thrown e \<Rightarrow> (Inl e, w1)
      | ErrorReturned signUpError \<Rightarrow> (Inl signUpError, w1)
      | Data None \<Rightarrow> (Inl (new_Error ''No user data after sign up''), w1)
      | Data (Some uid) \<Rightarrow>
          (case insert_profile_loop (new_profile_row uid fullName) ins 0 None
                  (w1\<lparr>identities := identities w1 @ [uid]\<rparr>) of
             (None, w2) \<Rightarrow> (Inr (), w2)
           | (Some lastError, w2) \<Rightarrow>
               (Inl (new_Error (message_or lastError ''Failed to create profile'')), w2)))"

definition signUp_catch :: "js_error \<Rightarrow> js_error" where
  "signUp_catch error =
     (if e_class error = AuthError \<and> String_includes (e_message error) ''User already registered''
      then new_Error ''Email already registered''
      else error)"

definition signUp ::
  "string \<Rightarrow> string \<Rightarrow> string \<Rightarrow> string option answer \<Rightarrow> (nat \<Rightarrow> unit answer) \<Rightarrow> auth_world \<Rightarrow>
     (js_error + unit) \<times> auth_world" where
  "signUp email password fullName auth ins w =
     (case signUp_try email password fullName auth ins w of
        (Inl error, w1) \<Rightarrow> (Inl (signUp_catch error), w1)
      | (Inr u, w1) \<Rightarrow> (Inr u, w1))"

declare fetch_profile_loop.simps [simp del]

declare insert_profile_loop.simps [simp del]

text \<open>An answer that is a failure, and its error.\<close>

fun failure :: "'a answer \<Rightarrow> js_error option" where
  "failure (Data d) = None"
| "failure (ErrorReturned e) = Some e"
| "failure (Thrown e) = Some e"

section \<open>Attachment upload (CreateTaskModal, components/TaskDetailsModal, components/task/TaskDetailsModal)\<close>

record File =
  f_name :: string
  f_type :: string
  f_size :: nat

record Attachment =
  a_task_id :: string
  a_user_id :: string
  a_file_name :: string
  a_file_type :: string
  a_file_url :: string
  a_file_size :: nat

text \<open>
  A selected file together with what the environment does for it: the string
  \<^verbatim>\<open>Math.random().toString(36).substring(2, 15)\<close> gives, the answer of the storage
  upload and the answer of the insert into \<^verbatim>\<open>attachments\<close>.
\<close>

record upload_job =
  j_file :: File
  j_random :: string
  j_upload :: "unit answer"
  j_insert :: "unit answer"

text \<open>The backend: the objects of the storage bucket by path, and the rows of
  \<^verbatim>\<open>attachments\<close>.\<close>

record upload_world =
  bucket :: "(string \<times> File) list"
  attachments :: "Attachment list"

text \<open>\<^verbatim>\<open>file.name.split('.').pop()\<close>: what follows the last dot, the whole name when it
  has no dot.\<close>

definition fileExt :: "string \<Rightarrow> string" where
  "fileExt name = rev (takeWhile (\<lambda>c. c \<noteq> CHR ''.'') (rev name))"

definition filePath :: "string \<Rightarrow> upload_job \<Rightarrow> string" where
  "filePath taskId j = taskId @ ''/'' @ j_random j @ ''.'' @ fileExt (f_name (j_file j))"

text \<open>The metadata row of a file; \<open>publicUrl\<close> is the storage's \<^verbatim>\<open>getPublicUrl\<close>.\<close>

definition attachment_row ::
  "(string \<Rightarrow> string) \<Rightarrow> string \<Rightarrow> string \<Rightarrow> upload_job \<Rightarrow> Attachment" where
  "attachment_row publicUrl user_id taskId j =
     \<lparr>a_task_id = taskId, a_user_id = user_id, a_file_name = f_name (j_file j),
      a_file_type = f_type (j_file j), a_file_url = publicUrl (filePath taskId j),
      a_file_size = f_size (j_file j)\<rparr>"

text \<open>
  \<^verbatim>\<open>uploadFile(file, taskId)\<close> of CreateTaskModal: upload, throw on an upload error,
  then insert the row. The answer to the insert is awaited and not looked at: an error
  in it is dropped (and no row exists), an exception of it is thrown on.
\<close>

definition uploadFile ::
  "(string \<Rightarrow> string) \<Rightarrow> string \<Rightarrow> string \<Rightarrow> upload_job \<Rightarrow> upload_world \<Rightarrow>
     (js_error + unit) \<times> upload_world" where
  "uploadFile publicUrl user_id taskId j w =
     (case j_upload j of
        Thrown e \<Rightarrow> (Inl e, w)
      | ErrorReturned uploadError \<Rightarrow> (Inl uploadError, w)
      | Data u \<Rightarrow>
          (let w1 = w\<lparr>bucket := bucket w @ [(filePath taskId j, j_file j)]\<rparr> in
           case j_insert j of
             Thrown e \<Rightarrow> (Inl e, w1)
           | ErrorReturned e \<Rightarrow> (Inr (), w1)
           | Data u \<Rightarrow>
               (Inr (), w1\<lparr>attachments :=
                  attachments w1 @ [attachment_row publicUrl user_id taskId j]\<rparr>)))"

text \<open>
  The step \<^verbatim>\<open>await Promise.all(files.map(file => uploadFile(file, taskId)))\<close> of
  \<^verbatim>\<open>handleSubmit\<close>: every call is started, and each runs to its end whatever the
  others do. The calls only add to the backend, so the order in which they take their
  turns changes the order of the rows and nothing else; the model takes the turns in file
  order and returns the outcome of every call.
\<close>

fun upload_all ::
  "(string \<Rightarrow> string) \<Rightarrow> string \<Rightarrow> string \<Rightarrow> upload_job list \<Rightarrow> upload_world \<Rightarrow>
     (js_error + unit) list \<times> upload_world" where
  "upload_all publicUrl user_id taskId [] w = ([], w)"
| "upload_all publicUrl user_id taskId (j # js) w =
     (case uploadFile publicUrl user_id taskId j w of
        (r, w1) \<Rightarrow>
          (case upload_all publicUrl user_id taskId js w1 of
             (rs, w2) \<Rightarrow> (r # rs, w2)))"

text \<open>
  The loop of \<^verbatim>\<open>uploadFiles\<close> of components/TaskDetailsModal (the modal of the
  Statistics page): one file after the other, each
  awaited; the first upload error is thrown out of the loop.
\<close>

fun uploadFiles_loop ::
  "(string \<Rightarrow> string) \<Rightarrow> string \<Rightarrow> string \<Rightarrow> upload_job list \<Rightarrow> upload_world \<Rightarrow>
     (js_error + unit) \<times> upload_world" where
  "uploadFiles_loop publicUrl user_id taskId [] w = (Inr (), w)"
| "uploadFiles_loop publicUrl user_id taskId (j # js) w =
     (case j_upload j of
        Thrown e \<Rightarrow> (Inl e, w)
      | ErrorReturned uploadError \<Rightarrow> (Inl uploadError, w)
      | Data u \<Rightarrow>
          (let w1 = w\<lparr>bucket := bucket w @ [(filePath taskId j, j_file j)]\<rparr> in
           case j_insert j of
             Thrown e \<Rightarrow> (Inl e, w1)
           | ErrorReturned e \<Rightarrow> uploadFiles_loop publicUrl user_id taskId js w1
           | Data u \<Rightarrow>
               uploadFiles_loop publicUrl user_id taskId js
                 (w1\<lparr>attachments :=
                    attachments w1 @ [attachment_row publicUrl user_id taskId j]\<rparr>)))"

text \<open>
  \<^verbatim>\<open>uploadFiles\<close>: nothing without files or user; after the loop the selection is
  cleared; an error becomes the banner \<^verbatim>\<open>err.message || 'Failed to upload files'\<close>.
  The refresh of the shown attachment list after a full success is not modelled.
\<close>

record details_state =
  files :: "upload_job list"
  uploadingFiles :: bool
  details_error :: string

definition uploadFiles ::
  "(string \<Rightarrow> string) \<Rightarrow> Profile option \<Rightarrow> string \<Rightarrow> details_state \<Rightarrow> upload_world \<Rightarrow>
     details_state \<times> upload_world" where
  "uploadFiles publicUrl user taskId s w =
     (case user of
        None \<Rightarrow> (s, w)
      | Some u \<Rightarrow>
          if files s = [] then (s, w)
          else
            (case uploadFiles_loop publicUrl (p_id u) taskId (files s) w of
               (Inr x, w1) \<Rightarrow> (s\<lparr>files := [], uploadingFiles := False\<rparr>, w1)
             | (Inl err, w1) \<Rightarrow>
                 (s\<lparr>uploadingFiles := False,
                    details_error := message_or (Some err) ''Failed to upload files''\<rparr>, w1)))"

text \<open>
  \<^verbatim>\<open>uploadFiles\<close> of components/task/TaskDetailsModal.tsx, the modal of the Tasks page:
  the steps of \<^verbatim>\<open>uploadFile\<close> for each file, all files through \<^verbatim>\<open>Promise.all\<close>;
  the user is asserted to be there. A rejection becomes the fixed banner
  \<^verbatim>\<open>Failed to upload files\<close>.
\<close>

record task_modal_state =
  newFiles :: "upload_job list"
  modal_uploadingFiles :: bool
  modal_error :: string
  modal_success :: string

definition uploadFiles_task_modal ::
  "(string \<Rightarrow> string) \<Rightarrow> Profile \<Rightarrow> string \<Rightarrow> task_modal_state \<Rightarrow> upload_world \<Rightarrow>
     task_modal_state \<times> upload_world" where
  "uploadFiles_task_modal publicUrl user taskId s w =
     (if newFiles s = [] then (s, w)
      else
        (case upload_all publicUrl (p_id user) taskId (newFiles s) w of
           (rs, w1) \<Rightarrow>
             if list_ex isl rs
             then (s\<lparr>modal_uploadingFiles := False, modal_error := ''Failed to upload files''\<rparr>, w1)
             else (s\<lparr>newFiles := [], modal_uploadingFiles := False,
                      modal_success := ''Files uploaded successfully''\<rparr>, w1)))"

text \<open>A file that succeeds on its own, and a file that ends the loop of
  \<^verbatim>\<open>uploadFiles\<close>.\<close>

definition succeeds :: "upload_job \<Rightarrow> bool" where
  "succeeds j = (j_upload j = Data () \<and> j_insert j = Data ())"

definition stops_loop :: "upload_job \<Rightarrow> bool" where
  "stops_loop j = (failure (j_upload j) \<noteq> None \<or> (case j_insert j of Thrown e \<Rightarrow> True | _ \<Rightarrow> False))"

section \<open>Debounced user search (Messages, components/TaskDetailsModal): searchUsers\<close>

text \<open>
  Time is in milliseconds since the component was mounted. The state is the text of the
  search box (\<^verbatim>\<open>searchQuery\<close>), the pending timeout of the effect (when it is due and the text its closure
  holds) and the queries sent to the backend so far (when, and for which text).
\<close>

record search_state =
  search_text :: string
  debounceTimer :: "(nat \<times> string) option"
  issued :: "(nat \<times> string) list"
  found_cleared :: bool

text \<open>
  \<^verbatim>\<open>searchUsers\<close> of Messages, run at time \<open>now\<close> with the text \<open>q\<close> of its closure:
  \<^verbatim>\<open>if (!searchQuery.trim() || !user) { setSearchResults([]); return; }\<close>, otherwise one
  query is sent. The one of components/TaskDetailsModal has no test of the user. The
  parameter
  \<open>trim\<close> is the platform's \<^verbatim>\<open>String.prototype.trim\<close>.
\<close>

definition searchUsers ::
  "(string \<Rightarrow> string) \<Rightarrow> Profile option \<Rightarrow> nat \<Rightarrow> string \<Rightarrow> search_state \<Rightarrow> search_state" where
  "searchUsers trim user now q s =
     (if trim q = [] \<or> user = None then s\<lparr>found_cleared := True\<rparr>
      else s\<lparr>issued := issued s @ [(now, q)]\<rparr>)"

definition searchUsers_details ::
  "(string \<Rightarrow> string) \<Rightarrow> nat \<Rightarrow> string \<Rightarrow> search_state \<Rightarrow> search_state" where
  "searchUsers_details trim now q s =
     (if trim q = [] then s\<lparr>found_cleared := True\<rparr>
      else s\<lparr>issued := issued s @ [(now, q)]\<rparr>)"

text \<open>
  The platform: a timeout that is due runs before an event that comes at or after its
  due time.
\<close>

definition run_due ::
  "(nat \<Rightarrow> string \<Rightarrow> search_state \<Rightarrow> search_state) \<Rightarrow> nat \<Rightarrow> search_state \<Rightarrow> search_state" where
  "run_due callback now s =
     (case debounceTimer s of
        None \<Rightarrow> s
      | Some (due, q) \<Rightarrow>
          if due \<le> now then callback due q (s\<lparr>debounceTimer := None\<rparr>) else s)"

text \<open>
  The effect with dependency \<^verbatim>\<open>searchQuery\<close>:
  \<^verbatim>\<open>const debounceTimer = setTimeout(searchUsers, 300); return () => clearTimeout(debounceTimer);\<close>.
  A \<^verbatim>\<open>setSearchQuery(v)\<close> at time \<open>t\<close> that changes the text runs the cleanup of the
  last effect, which clears its timeout, and then the effect, which sets a new one; one
  that leaves the text as it is runs nothing. The second dependency, \<^verbatim>\<open>user?.id\<close>,
  is held fixed, and the component stays mounted.
\<close>

definition setSearchQuery ::
  "(nat \<Rightarrow> string \<Rightarrow> search_state \<Rightarrow> search_state) \<Rightarrow> nat \<Rightarrow> string \<Rightarrow> search_state \<Rightarrow> search_state" where
  "setSearchQuery callback t v s =
     (let s1 = run_due callback t s in
      if v = search_text s1 then s1
      else s1\<lparr>search_text := v, debounceTimer := Some (t + 300, v)\<rparr>)"

text \<open>The component at mount: empty text, and the first run of the effect.\<close>

definition search_mount :: search_state where
  "search_mount =
     \<lparr>search_text = [], debounceTimer = Some (300, []), issued = [], found_cleared = False\<rparr>"

text \<open>A sequence of changes of the text, each with its time, and then quiet.\<close>

fun type_keys ::
  "(nat \<Rightarrow> string \<Rightarrow> search_state \<Rightarrow> search_state) \<Rightarrow> (nat \<times> string) list \<Rightarrow> search_state \<Rightarrow> search_state" where
  "type_keys callback [] s = s"
| "type_keys callback ((t, v) # evs) s = type_keys callback evs (setSearchQuery callback t v s)"

definition then_quiet ::
  "(nat \<Rightarrow> string \<Rightarrow> search_state \<Rightarrow> search_state) \<Rightarrow> search_state \<Rightarrow> search_state" where
  "then_quiet callback s =
     (case debounceTimer s of
        None \<Rightarrow> s
      | Some (due, q) \<Rightarrow> callback due q (s\<lparr>debounceTimer := None\<rparr>))"

text \<open>
  The quiet periods of a sequence of changes: a change is followed by one when the next
  change comes 300 ms later or more, or never. Each is given with the time it is reached
  and the text then in the box.
\<close>

fun quiet_periods :: "(nat \<times> string) list \<Rightarrow> (nat \<times> string) list" where
  "quiet_periods [] = []"
| "quiet_periods [(t, v)] = [(t + 300, v)]"
| "quiet_periods ((t, v) # (t', v') # evs) =
     (if t + 300 \<le> t' then [(t + 300, v)] else []) @ quiet_periods ((t', v') # evs)"

section \<open>Example data\<close>

definition example_notification :: "string \<Rightarrow> notification" where
  "example_notification i =
     \<lparr>n_id = i, n_user_id = ''ann'', n_content = ''New comment'', n_task_id = Some ''7'',
      n_message_id = None, n_read = False\<rparr>"

definition example_dropdown :: dropdown_state where
  "example_dropdown =
     \<lparr>notifications_table = [example_notification ''a'', example_notification ''b''],
      notifications = [example_notification ''b'', example_notification ''a'']\<rparr>"

definition msg :: "string \<Rightarrow> string \<Rightarrow> string \<Rightarrow> bool \<Rightarrow> Message" where
  "msg i sender receiver r =
     \<lparr>m_id = i, m_sender_id = sender, m_receiver_id = receiver, m_content = ''hi'',
      m_read = r, m_created_at = i\<rparr>"

definition example_messages :: messages_state where
  "example_messages =
     \<lparr>messages_table = [msg ''1'' ''bob'' ''ann'' False, msg ''2'' ''ann'' ''bob'' False,
                        msg ''3'' ''eve'' ''ann'' False],
      messages = [], messages_loading = True\<rparr>"

definition example_profile :: "string \<Rightarrow> UserRole \<Rightarrow> Profile" where
  "example_profile i r = \<lparr>p_id = i, p_full_name = i, p_role = r\<rparr>"

definition example_task :: "string \<Rightarrow> string \<Rightarrow> string option \<Rightarrow> Task" where
  "example_task i creator assignee =
     \<lparr>t_id = i, t_title = ''Task '' @ i, t_description = None, t_status = pending,
      t_priority = medium, t_created_by = creator, t_assigned_to = assignee,
      t_due_date = None, t_created_at = ''2025-02-09T16:32:59Z''\<rparr>"

definition example_backend :: tasks_backend where
  "example_backend =
     \<lparr>tasks_table = [example_task ''1'' ''ann'' None, example_task ''2'' ''bob'' (Some ''ann''),
                     example_task ''3'' ''bob'' (Some ''eve'')],
      fetchError = None, commentCount = (\<lambda>t. Some 2), attachmentCount = (\<lambda>t. None),
      notificationCount = (\<lambda>t u. Some 0)\<rparr>"

definition empty_page :: tasks_page where
  "empty_page = \<lparr>page_tasks = [], page_loading = True, page_error = []\<rparr>"

definition no_rows_error :: js_error where
  "no_rows_error =
     \<lparr>e_class = PostgrestError,
      e_message = ''JSON object requested, multiple (or no) rows returned'',
      e_code = Some ''PGRST116''\<rparr>"

definition fetch_always_fails :: "nat \<Rightarrow> Profile option answer" where
  "fetch_always_fails n = ErrorReturned no_rows_error"

definition insert_always_fails :: "nat \<Rightarrow> unit answer" where
  "insert_always_fails n = (if n = 1 then Thrown no_rows_error else ErrorReturned no_rows_error)"

definition insert_second_ok :: "nat \<Rightarrow> unit answer" where
  "insert_second_ok n = (if n = 0 then ErrorReturned no_rows_error else Data ())"

definition empty_world :: auth_world where
  "empty_world = \<lparr>session = None, identities = [], profiles = [], store_user = None, calls = []\<rparr>"

definition job :: "string \<Rightarrow> unit answer \<Rightarrow> upload_job" where
  "job name up =
     \<lparr>j_file = \<lparr>f_name = name, f_type = ''text/plain'', f_size = 12\<rparr>,
      j_random = ''k3j9x'' @ take 1 name, j_upload = up, j_insert = Data ()\<rparr>"

definition storage_error :: js_error where
  "storage_error = \<lparr>e_class = PlainError, e_message = ''The object exceeded the maximum allowed size'',
                    e_code = None\<rparr>"

definition three_files :: details_state where
  "three_files =
     \<lparr>files = [job ''a.txt'' (Data ()), job ''b.txt'' (ErrorReturned storage_error),
               job ''c.txt'' (Data ())],
      uploadingFiles = False, details_error = []\<rparr>"

definition no_backend_rows :: upload_world where
  "no_backend_rows = \<lparr>bucket = [], attachments = []\<rparr>"

definition typed_then_erased :: "(nat \<times> string) list" where
  "typed_then_erased = [(1000, ''a''), (1100, ''an''), (1150, ''a''), (1200, [])]"

definition typed_ann :: "(nat \<times> string) list" where
  "typed_ann = [(1000, ''a''), (1100, ''an''), (1250, ''ann''), (2000, ''anna'')]"

text \<open>
  The platform functions on the texts of the examples, which are ASCII: on such texts
  \<^verbatim>\<open>toLowerCase\<close> lowers the letters A to Z and \<^verbatim>\<open>trim\<close> strips the six ASCII
  white-space characters. The examples order strings by length where a collation key is
  needed, and read the seconds of their timestamps as the time.
\<close>

definition ascii_lower_char :: "char \<Rightarrow> char" where
  "ascii_lower_char c =
     (let n = (of_char c :: nat) in if 65 \<le> n \<and> n \<le> 90 then char_of (n + 32) else c)"

definition ascii_lower :: "string \<Rightarrow> string" where
  "ascii_lower s = map ascii_lower_char s"

definition ascii_space :: "char \<Rightarrow> bool" where
  "ascii_space c = (c \<in> set [CHR '' '', CHR 0x09, CHR 0x0A, CHR 0x0B, CHR 0x0C, CHR 0x0D])"

definition ascii_trim :: "string \<Rightarrow> string" where
  "ascii_trim s = rev (dropWhile ascii_space (rev (dropWhile ascii_space s)))"

definition example_getTime :: "string \<Rightarrow> int" where
  "example_getTime s =
     (if s = ''2025-02-09T16:32:59Z'' then 1739118779000
      else if s = ''2025-02-10T08:00:00Z'' then 1739174400000
      else if s = ''2025-03-01T12:00:00Z'' then 1740830400000
      else 0)"

definition example_titled ::
  "string \<Rightarrow> string \<Rightarrow> string option \<Rightarrow> TaskStatus \<Rightarrow> TaskPriority \<Rightarrow> string \<Rightarrow> Task" where
  "example_titled i ttl descr st pr created =
     \<lparr>t_id = i, t_title = ttl, t_description = descr, t_status = st, t_priority = pr,
      t_created_by = ''ann'', t_assigned_to = None, t_due_date = None, t_created_at = created\<rparr>"

definition example_task_list :: "Task list" where
  "example_task_list =
     [example_titled ''1'' ''Fix bug'' (Some ''see the REPORT'') pending low ''2025-02-09T16:32:59Z'',
      example_titled ''2'' ''Write Report'' None in_progress high ''2025-02-10T08:00:00Z'',
      example_titled ''3'' ''Plan'' (Some []) completed medium ''2025-03-01T12:00:00Z'',
      example_titled ''4'' ''report template'' None pending medium ''2025-02-09T16:32:59Z'']"

definition three_new_files :: task_modal_state where
  "three_new_files =
     \<lparr>newFiles = files three_files, modal_uploadingFiles = False, modal_error = [],
      modal_success = []\<rparr>"

section \<open>Theorems\<close>

lemma theme_mount_reads_storage:
  "darkMode (theme_mount s) = (localStorage s ''darkMode'' = Some ''true'')"
  by (simp add: theme_mount_def Let_def)

lemma toggle_stores_flag:
  "localStorage (toggleDarkMode s) ''darkMode'' = Some (String_of_bool (darkMode (toggleDarkMode s)))"
  by (simp add: toggleDarkMode_def Let_def)

lemma toggles_consistent:
  "localStorage ((toggleDarkMode ^^ n) (theme_mount s)) ''darkMode'' = Some ''true''
     \<longleftrightarrow> darkMode ((toggleDarkMode ^^ n) (theme_mount s))"
proof (cases n)
  case 0
  then show ?thesis by (simp add: theme_mount_def Let_def)
next
  case (Suc m)
  then show ?thesis
    using toggle_stores_flag [of "(toggleDarkMode ^^ m) (theme_mount s)"]
    by (simp add: String_of_bool_def)
qed

text \<open>
  C7. After the mount effect and any number of toggles, a reload reads back from storage
  the flag the component held, and after at least one toggle the stored string is
  \<^verbatim>\<open>String\<close> of the value the last toggle set.
\<close>

theorem darkMode_survives_reload:
  "darkMode (theme_reload ((toggleDarkMode ^^ n) (theme_mount s)))
     = darkMode ((toggleDarkMode ^^ n) (theme_mount s))
   \<and> localStorage ((toggleDarkMode ^^ Suc n) (theme_mount s)) ''darkMode''
     = Some (String_of_bool (darkMode ((toggleDarkMode ^^ Suc n) (theme_mount s))))
   \<and> darkMode ((toggleDarkMode ^^ Suc n) (theme_mount s))
     = (\<not> darkMode ((toggleDarkMode ^^ n) (theme_mount s)))"
proof (intro conjI)
  show "darkMode (theme_reload ((toggleDarkMode ^^ n) (theme_mount s)))
     = darkMode ((toggleDarkMode ^^ n) (theme_mount s))"
    using toggles_consistent [of n s]
    by (simp add: theme_reload_def theme_mount_reads_storage)
  show "localStorage ((toggleDarkMode ^^ Suc n) (theme_mount s)) ''darkMode''
     = Some (String_of_bool (darkMode ((toggleDarkMode ^^ Suc n) (theme_mount s))))"
    using toggle_stores_flag [of "(toggleDarkMode ^^ n) (theme_mount s)"] by simp
  show "darkMode ((toggleDarkMode ^^ Suc n) (theme_mount s))
     = (\<not> darkMode ((toggleDarkMode ^^ n) (theme_mount s)))"
    by (simp add: toggleDarkMode_def Let_def)
qed

subsection \<open>Notifications\<close>

text \<open>
  C5. \<^verbatim>\<open>markAsRead(id)\<close> keeps both lists as long as they were and leaves every
  notification with another id as it was, in the backend table and in the local list,
  whatever the backend answers; when the update goes through, each notification with
  that id is the old one with \<^verbatim>\<open>read\<close> set.
\<close>

theorem markAsRead_frame:
  "length (notifications (markAsRead nid err s)) = length (notifications s)
   \<and> length (notifications_table (markAsRead nid err s)) = length (notifications_table s)
   \<and> (\<forall>i < length (notifications s).
         n_id (notifications s ! i) \<noteq> nid \<longrightarrow>
           notifications (markAsRead nid err s) ! i = notifications s ! i)
   \<and> (\<forall>i < length (notifications_table s).
         n_id (notifications_table s ! i) \<noteq> nid \<longrightarrow>
           notifications_table (markAsRead nid err s) ! i = notifications_table s ! i)
   \<and> (\<forall>i < length (notifications s).
         n_id (notifications s ! i) = nid \<longrightarrow>
           notifications (markAsRead nid None s) ! i = (notifications s ! i)\<lparr>n_read := True\<rparr>)
   \<and> (\<forall>i < length (notifications_table s).
         n_id (notifications_table s ! i) = nid \<longrightarrow>
           notifications_table (markAsRead nid None s) ! i
             = (notifications_table s ! i)\<lparr>n_read := True\<rparr>)"
  by (cases err) (simp_all add: markAsRead_def update_read_eq_id_def patch_read_def)

theorem markAsRead_frame_witness:
  "n_read (notifications (markAsRead ''a'' None example_dropdown) ! 1)
   \<and> notifications (markAsRead ''a'' None example_dropdown) ! 0 = example_notification ''b''
   \<and> n_read (notifications_table (markAsRead ''a'' None example_dropdown) ! 0)
   \<and> notifications_table (markAsRead ''a'' None example_dropdown) ! 1 = example_notification ''b''"
  using markAsRead_frame [of "''a''" None example_dropdown]
  by (simp add: example_dropdown_def example_notification_def)

subsection \<open>Direct messages\<close>

text \<open>
  C6, as the code has it. \<^verbatim>\<open>fetchMessages\<close> keeps the table as long as it was. When the
  list is fetched and the update that follows goes through, every unread message from the
  selected contact to the current user is the old one with \<^verbatim>\<open>read\<close> set; every message
  that is not such an unread message from the contact to the user is left as it was, in
  every case.
\<close>

theorem fetchMessages_marks_received:
  "length (messages_table (fetchMessages ord user contact sel_err upd_err s)) = length (messages_table s)
   \<and> (\<forall>i < length (messages_table s).
        (user = Some u \<and> contact = Some c \<and> sel_err = None \<and> upd_err = None
         \<and> m_sender_id (messages_table s ! i) = p_id c
         \<and> m_receiver_id (messages_table s ! i) = p_id u
         \<and> \<not> m_read (messages_table s ! i)
         \<longrightarrow> messages_table (fetchMessages ord user contact sel_err upd_err s) ! i
               = (messages_table s ! i)\<lparr>m_read := True\<rparr>)
      \<and> (\<not> (\<exists>u c. user = Some u \<and> contact = Some c
                  \<and> m_sender_id (messages_table s ! i) = p_id c
                  \<and> m_receiver_id (messages_table s ! i) = p_id u
                  \<and> \<not> m_read (messages_table s ! i))
         \<longrightarrow> messages_table (fetchMessages ord user contact sel_err upd_err s) ! i
               = messages_table s ! i))"
  by (auto simp: fetchMessages_def mark_received_read_def split: option.splits)

theorem fetchMessages_marks_received_witness:
  "length (messages_table (fetchMessages length (Some (example_profile ''ann'' worker))
      (Some (example_profile ''bob'' worker)) None None example_messages)) = 3
   \<and> messages_table (fetchMessages length (Some (example_profile ''ann'' worker))
      (Some (example_profile ''bob'' worker)) None None example_messages) ! 0
     = msg ''1'' ''bob'' ''ann'' True
   \<and> messages_table (fetchMessages length (Some (example_profile ''ann'' worker))
      (Some (example_profile ''bob'' worker)) None None example_messages) ! 1
     = msg ''2'' ''ann'' ''bob'' False
   \<and> messages_table (fetchMessages length (Some (example_profile ''ann'' worker))
      (Some (example_profile ''bob'' worker)) None None example_messages) ! 2
     = msg ''3'' ''eve'' ''ann'' False"
  using fetchMessages_marks_received [of length "Some (example_profile ''ann'' worker)"
      "Some (example_profile ''bob'' worker)" None None example_messages
      "example_profile ''ann'' worker" "example_profile ''bob'' worker"]
  by (simp add: example_messages_def msg_def example_profile_def)

text \<open>
  C6, as it is written, fails: the list is fetched, the backend refuses the update, whose
  answer the code does not look at, and the unread message from the contact stays unread.
\<close>

theorem fetchMessages_update_refused_counterexample:
  "messages (fetchMessages length (Some (example_profile ''ann'' worker))
        (Some (example_profile ''bob'' worker)) None (Some ''permission denied'') example_messages)
     = [msg ''1'' ''bob'' ''ann'' False, msg ''2'' ''ann'' ''bob'' False]
   \<and> messages_table example_messages ! 0 = msg ''1'' ''bob'' ''ann'' False
   \<and> messages_table (fetchMessages length (Some (example_profile ''ann'' worker))
        (Some (example_profile ''bob'' worker)) None (Some ''permission denied'') example_messages) ! 0
     = msg ''1'' ''bob'' ''ann'' False
   \<and> \<not> m_read (msg ''1'' ''bob'' ''ann'' False)"
  by (simp add: fetchMessages_def example_messages_def select_conversation_def msg_def
        example_profile_def)

subsection \<open>Task page\<close>

lemma truncate_with_counts: "Task.truncate (with_counts u b t) = t"
  by (simp add: with_counts_def Task.truncate_def Task.extend_def TaskWithCounts.fields_def)

text \<open>
  C8. When the query of \<^verbatim>\<open>fetchTasks\<close> succeeds: for a role that is neither admin
  nor manager every task of the page has the user as creator or assignee, and the page
  holds exactly those rows of the table; for an admin or a manager it holds every row.
\<close>

theorem fetchTasks_role_restriction:
  assumes "fetchError b = None"
  shows "(p_role u \<noteq> admin \<and> p_role u \<noteq> manager \<longrightarrow>
            (\<forall>t \<in> set (page_tasks (fetchTasks (Some u) b s)).
               t_created_by t = p_id u \<or> t_assigned_to t = Some (p_id u))
            \<and> map Task.truncate (page_tasks (fetchTasks (Some u) b s))
                = filter (\<lambda>t. t_created_by t = p_id u \<or> t_assigned_to t = Some (p_id u))
                    (tasks_table b))
       \<and> (p_role u = admin \<or> p_role u = manager \<longrightarrow>
            map Task.truncate (page_tasks (fetchTasks (Some u) b s)) = tasks_table b)"
proof -
  have tr: "map Task.truncate (map (with_counts u b) xs) = xs" for xs
    by (induction xs) (simp_all add: truncate_with_counts)
  have keep: "t_created_by (with_counts u b t) = t_created_by t"
             "t_assigned_to (with_counts u b t) = t_assigned_to t" for t
    by (simp_all add: with_counts_def Task.extend_def)
  have fl: "filter (\<lambda>t. t_assigned_to t = Some (p_id u) \<or> t_created_by t = p_id u) xs
          = filter (\<lambda>t. t_created_by t = p_id u \<or> t_assigned_to t = Some (p_id u)) xs" for xs :: "Task list"
    by (rule filter_cong) auto
  show ?thesis
    using assms by (auto simp: fetchTasks_def tasks_query_def tr keep fl simp del: map_map)
qed

theorem fetchTasks_role_restriction_witness:
  "map Task.truncate (page_tasks (fetchTasks (Some (example_profile ''ann'' worker)) example_backend empty_page))
     = [example_task ''1'' ''ann'' None, example_task ''2'' ''bob'' (Some ''ann'')]
   \<and> map Task.truncate (page_tasks (fetchTasks (Some (example_profile ''ann'' manager)) example_backend empty_page))
     = [example_task ''1'' ''ann'' None, example_task ''2'' ''bob'' (Some ''ann''),
        example_task ''3'' ''bob'' (Some ''eve'')]"
proof -
  have ok: "fetchError example_backend = None" by (simp add: example_backend_def)
  show ?thesis
    using fetchTasks_role_restriction [OF ok, of "example_profile ''ann'' worker" empty_page]
      fetchTasks_role_restriction [OF ok, of "example_profile ''ann'' manager" empty_page]
    by (simp add: example_backend_def example_profile_def example_task_def)
qed

lemma mset_insert_sorted: "mset (insert_sorted cmp x xs) = add_mset x (mset xs)"
  by (induction xs) auto

lemma mset_Array_sort: "mset (Array_sort cmp xs) = mset xs"
  by (induction xs) (auto simp: Array_sort_def mset_insert_sorted)

lemma set_insert_sorted: "set (insert_sorted cmp x xs) = insert x (set xs)"
  by (induction xs) auto

lemma sorted_insert_sorted:
  assumes tot: "\<And>a b. cmp a b \<le> 0 \<or> cmp b a \<le> 0"
      and tr: "\<And>a b c. cmp a b \<le> 0 \<Longrightarrow> cmp b c \<le> 0 \<Longrightarrow> cmp a c \<le> 0"
  shows "sorted_wrt (\<lambda>a b. cmp a b \<le> 0) xs \<Longrightarrow>
         sorted_wrt (\<lambda>a b. cmp a b \<le> 0) (insert_sorted cmp x xs)"
proof (induction xs)
  case Nil
  then show ?case by simp
next
  case (Cons y ys)
  show ?case
  proof (cases "cmp x y \<le> 0")
    case True
    have "\<forall>z \<in> set ys. cmp x z \<le> 0"
      using Cons.prems True tr by auto
    with True Cons.prems show ?thesis by simp
  next
    case False
    then have "cmp y x \<le> 0" using tot [of x y] by simp
    with False Cons show ?thesis by (auto simp: set_insert_sorted)
  qed
qed

lemma sorted_Array_sort:
  assumes tot: "\<And>a b. cmp a b \<le> 0 \<or> cmp b a \<le> 0"
      and tr: "\<And>a b c. cmp a b \<le> 0 \<Longrightarrow> cmp b c \<le> 0 \<Longrightarrow> cmp a c \<le> 0"
  shows "sorted_wrt (\<lambda>a b. cmp a b \<le> 0) (Array_sort cmp xs)"
proof (induction xs)
  case Nil
  show ?case by (simp add: Array_sort_def)
next
  case (Cons x xs)
  have "Array_sort cmp (x # xs) = insert_sorted cmp x (Array_sort cmp xs)"
    by (simp add: Array_sort_def)
  with Cons sorted_insert_sorted [of cmp, OF tot tr] show ?case by simp
qed

lemma compare_tasks_total:
  "compare_tasks lower getTime ck f d a b \<le> 0 \<or> compare_tasks lower getTime ck f d b a \<le> 0"
  by (cases f; cases d) (auto simp: compare_tasks_def localeCompare_def)

lemma compare_tasks_trans:
  "compare_tasks lower getTime ck f d a b \<le> 0 \<Longrightarrow> compare_tasks lower getTime ck f d b c \<le> 0 \<Longrightarrow>
   compare_tasks lower getTime ck f d a c \<le> 0"
  by (cases f; cases d) (auto simp: compare_tasks_def localeCompare_def split: if_splits)

lemma priorityOrder_le: "priorityOrder p \<le> priorityOrder q \<longleftrightarrow> priority_le p q"
  by (cases p; cases q) simp_all

lemma statusOrder_le: "statusOrder p \<le> statusOrder q \<longleftrightarrow> status_le p q"
  by (cases p; cases q) simp_all

lemma date_value_time_of: "d \<noteq> Some [] \<Longrightarrow> date_value getTime d = time_of getTime d"
  by (cases d) (simp_all add: date_value_def time_of_def)

lemma compare_tasks_may_precede:
  assumes "dates_present a" "dates_present b"
  shows "compare_tasks lower getTime ck f d a b \<le> 0 \<longleftrightarrow> may_precede lower getTime ck f d a b"
proof -
  have ca: "date_value getTime (Some (t_created_at a)) = getTime (t_created_at a)"
    and cb: "date_value getTime (Some (t_created_at b)) = getTime (t_created_at b)"
    using assms by (simp_all add: dates_present_def date_value_def)
  have da: "date_value getTime (t_due_date a) = time_of getTime (t_due_date a)"
    and db: "date_value getTime (t_due_date b) = time_of getTime (t_due_date b)"
    using assms by (simp_all add: dates_present_def date_value_time_of)
  show ?thesis
    by (cases f; cases d)
       (auto simp: compare_tasks_def in_direction_def localeCompare_def ca cb da db
          priorityOrder_le [symmetric] statusOrder_le [symmetric])
qed

lemma sublist_Nil_right: "sublist xs [] \<longleftrightarrow> xs = []"
  by (cases xs) simp_all

lemma status_allowed_str: "status_allowed f st \<longleftrightarrow> f = ''all'' \<or> TaskStatus_str st = f"
  by (cases st) auto

lemma priority_allowed_str: "priority_allowed f p \<longleftrightarrow> f = ''all'' \<or> TaskPriority_str p = f"
  by (cases p) auto

lemma search_filter_pred:
  assumes low: "\<And>s. (lower s = []) = (s = [])" and q: "q \<noteq> []"
  shows "(String_includes (lower (t_title t)) (lower q)
        \<or> (case t_description t of None \<Rightarrow> False
            | Some d \<Rightarrow> d \<noteq> [] \<and> String_includes (lower d) (lower q)))
     = (contains_ci lower (Some (t_title t)) q \<or> contains_ci lower (t_description t) q)"
proof -
  have l0: "lower [] = []" using low [of "[]"] by simp
  have lq: "lower q \<noteq> []" using low [of q] q by simp
  show ?thesis
    using lq by (auto simp: String_includes_def contains_ci_def sublist_Nil_right l0
                   split: option.splits)
qed

lemma search_step:
  assumes low: "\<And>s. (lower s = []) = (s = [])"
  shows "(if searchQuery \<noteq> [] then
      (let query = lower searchQuery
       in filter (\<lambda>task. String_includes (lower (t_title task)) query
                   \<or> (case t_description task of
                         None \<Rightarrow> False
                       | Some d \<Rightarrow> d \<noteq> [] \<and> String_includes (lower d) query)) xs)
    else xs)
   = filter (\<lambda>t. contains_ci lower (Some (t_title t)) searchQuery
                \<or> contains_ci lower (t_description t) searchQuery) xs"
proof (cases "searchQuery = []")
  case True
  moreover have "lower [] = []" using low [of "[]"] by simp
  ultimately show ?thesis by (simp add: contains_ci_def)
next
  case False
  then show ?thesis by (simp add: Let_def search_filter_pred [OF low])
qed

lemma filter_step:
  "(if flt \<noteq> ''all'' then filter (\<lambda>task. g task = flt) xs else xs)
   = filter (\<lambda>t. flt = ''all'' \<or> g t = flt) xs"
  by simp

lemma filtered_part:
  assumes low: "\<And>s. (lower s = []) = (s = [])"
  shows "applyFiltersAndSort lower getTime ck tasks searchQuery statusFilter priorityFilter
           sortField sortDirection
         = Array_sort (compare_tasks lower getTime ck sortField sortDirection)
             (filter (task_matches lower searchQuery statusFilter priorityFilter) tasks)"
proof -
  have "filter (task_matches lower searchQuery statusFilter priorityFilter) tasks
      = filter (\<lambda>t. priorityFilter = ''all'' \<or> TaskPriority_str (t_priority t) = priorityFilter)
          (filter (\<lambda>t. statusFilter = ''all'' \<or> TaskStatus_str (t_status t) = statusFilter)
             (filter (\<lambda>t. contains_ci lower (Some (t_title t)) searchQuery
                \<or> contains_ci lower (t_description t) searchQuery) tasks))"
    unfolding filter_filter task_matches_def status_allowed_str priority_allowed_str
    by (rule filter_cong) auto
  then show ?thesis
    unfolding applyFiltersAndSort_def Let_def search_step [OF low, unfolded Let_def] filter_step
    by simp
qed

text \<open>
  C9. For rows whose date columns, where present, are timestamps, and with a
  \<^verbatim>\<open>toLowerCase\<close> that maps the empty string, and no other, to the empty string:
  \<^verbatim>\<open>applyFiltersAndSort\<close> returns exactly the tasks (with their multiplicity) whose title
  or description contains the query, letter case apart, and whose status and priority
  match the filters other than \<^verbatim>\<open>all\<close>; the result is ordered by the chosen field in the
  chosen direction, with low below medium below high and pending before in progress before
  completed.
\<close>

theorem applyFiltersAndSort_filters_and_sorts:
  assumes low: "\<forall>s. (lower s = []) = (s = [])"
      and dates: "\<forall>t \<in> set tasks. dates_present t"
  shows "mset (applyFiltersAndSort lower getTime ck tasks searchQuery statusFilter priorityFilter
                 sortField sortDirection)
           = mset (filter (task_matches lower searchQuery statusFilter priorityFilter) tasks)
       \<and> sorted_wrt (may_precede lower getTime ck sortField sortDirection)
           (applyFiltersAndSort lower getTime ck tasks searchQuery statusFilter priorityFilter
              sortField sortDirection)"
proof -
  let ?cmp = "compare_tasks lower getTime ck sortField sortDirection"
  let ?kept = "filter (task_matches lower searchQuery statusFilter priorityFilter) tasks"
  have eq: "applyFiltersAndSort lower getTime ck tasks searchQuery statusFilter priorityFilter
              sortField sortDirection = Array_sort ?cmp ?kept"
    using low by (intro filtered_part) simp
  have srt: "sorted_wrt (\<lambda>a b. ?cmp a b \<le> 0) (Array_sort ?cmp ?kept)"
    by (rule sorted_Array_sort [OF compare_tasks_total compare_tasks_trans])
  have sub: "set (Array_sort ?cmp ?kept) \<subseteq> set tasks"
    using mset_Array_sort [of ?cmp ?kept] by (metis filter_is_subset set_mset_mset)
  have "sorted_wrt (may_precede lower getTime ck sortField sortDirection) (Array_sort ?cmp ?kept)"
  proof (rule sorted_wrt_mono_rel [OF _ srt])
    fix a b
    assume "a \<in> set (Array_sort ?cmp ?kept)" "b \<in> set (Array_sort ?cmp ?kept)" "?cmp a b \<le> 0"
    with sub dates show "may_precede lower getTime ck sortField sortDirection a b"
      using compare_tasks_may_precede [of a b lower getTime ck sortField sortDirection] by blast
  qed
  then show ?thesis
    by (simp add: eq mset_Array_sort)
qed

lemma ascii_lower_empty: "(ascii_lower s = []) = (s = [])"
  by (simp add: ascii_lower_def)

lemma example_dates: "\<forall>t \<in> set example_task_list. dates_present t"
  by (simp add: example_task_list_def example_titled_def dates_present_def)

lemma example_kept:
  "filter (task_matches ascii_lower ''report'' ''all'' ''all'') example_task_list
     = [example_titled ''1'' ''Fix bug'' (Some ''see the REPORT'') pending low ''2025-02-09T16:32:59Z'',
        example_titled ''2'' ''Write Report'' None in_progress high ''2025-02-10T08:00:00Z'',
        example_titled ''4'' ''report template'' None pending medium ''2025-02-09T16:32:59Z'']"
  by code_simp

lemma example_sorted:
  "applyFiltersAndSort ascii_lower example_getTime length example_task_list ''report'' ''all'' ''all''
       priority desc
     = [example_titled ''2'' ''Write Report'' None in_progress high ''2025-02-10T08:00:00Z'',
        example_titled ''4'' ''report template'' None pending medium ''2025-02-09T16:32:59Z'',
        example_titled ''1'' ''Fix bug'' (Some ''see the REPORT'') pending low ''2025-02-09T16:32:59Z'']"
  by code_simp

theorem applyFiltersAndSort_filters_and_sorts_witness:
  "mset (applyFiltersAndSort ascii_lower example_getTime length example_task_list
           ''report'' ''all'' ''all'' priority desc)
     = {#example_titled ''1'' ''Fix bug'' (Some ''see the REPORT'') pending low ''2025-02-09T16:32:59Z'',
         example_titled ''2'' ''Write Report'' None in_progress high ''2025-02-10T08:00:00Z'',
         example_titled ''4'' ''report template'' None pending medium ''2025-02-09T16:32:59Z''#}
   \<and> sorted_wrt (may_precede ascii_lower example_getTime length priority desc)
        (applyFiltersAndSort ascii_lower example_getTime length example_task_list
           ''report'' ''all'' ''all'' priority desc)
   \<and> applyFiltersAndSort ascii_lower example_getTime length example_task_list
           ''report'' ''all'' ''all'' priority desc
     = [example_titled ''2'' ''Write Report'' None in_progress high ''2025-02-10T08:00:00Z'',
        example_titled ''4'' ''report template'' None pending medium ''2025-02-09T16:32:59Z'',
        example_titled ''1'' ''Fix bug'' (Some ''see the REPORT'') pending low ''2025-02-09T16:32:59Z'']"
proof -
  have low: "\<forall>s. (ascii_lower s = []) = (s = [])" by (simp add: ascii_lower_empty)
  show ?thesis
    using applyFiltersAndSort_filters_and_sorts [OF low example_dates, of example_getTime length
        "''report''" "''all''" "''all''" priority desc]
      example_sorted
    by (simp add: example_kept)
qed

subsection \<open>Session store\<close>

lemma fetch_loop_last:
  assumes "failure (fetch 2) = Some e2"
  shows "fetch_profile_loop uid fetch 2 l v = (None, Some e2, emit (SelectProfile uid) v)"
  using assms
  by (subst fetch_profile_loop.simps) (cases "fetch 2"; simp add: maxRetries_def Let_def)

lemma fetch_loop_retry:
  assumes "failure (fetch n) = Some e" "n + 1 < maxRetries"
  shows "fetch_profile_loop uid fetch n l v
           = fetch_profile_loop uid fetch (n + 1) (Some e)
               (emit (Delay (1000 * (n + 1))) (emit (SelectProfile uid) v))"
  using assms
  by (subst fetch_profile_loop.simps) (cases "fetch n"; simp add: Let_def)

lemma fetch_loop_three_failures:
  assumes "failure (fetch 0) = Some e0" "failure (fetch 1) = Some e1" "failure (fetch 2) = Some e2"
  shows "fetch_profile_loop uid fetch 0 lastError w =
           (None, Some e2,
            w\<lparr>calls := calls w @ [SelectProfile uid, Delay 1000, SelectProfile uid, Delay 2000,
                                   SelectProfile uid]\<rparr>)"
proof -
  have "fetch_profile_loop uid fetch 0 lastError w
          = fetch_profile_loop uid fetch 1 (Some e0)
              (emit (Delay 1000) (emit (SelectProfile uid) w))"
    using fetch_loop_retry [of fetch 0 e0 uid lastError w] assms(1) by (simp add: maxRetries_def)
  also have "\<dots> = fetch_profile_loop uid fetch 2 (Some e1)
              (emit (Delay 2000) (emit (SelectProfile uid)
                 (emit (Delay 1000) (emit (SelectProfile uid) w))))"
    using fetch_loop_retry [of fetch 1 e1 uid "Some e0"] assms(2)
    by (simp add: maxRetries_def numeral_2_eq_2)
  also have "\<dots> = (None, Some e2, emit (SelectProfile uid) (emit (Delay 2000) (emit (SelectProfile uid)
                 (emit (Delay 1000) (emit (SelectProfile uid) w)))))"
    using assms(3) by (simp add: fetch_loop_last [where fetch = fetch and ?e2.0 = e2])
  finally show ?thesis by (simp add: emit_def)
qed

text \<open>
  C1, as the code has it. When the sign-in answers with a session and the three profile
  selects all fail, \<^verbatim>\<open>signIn\<close> waits 1000 ms after the first failure and 2000 ms
  after the second, signs out (in the \<^verbatim>\<open>try\<close> block and again in the \<^verbatim>\<open>catch\<close>
  block), clears the user, and throws a new plain error whose message is the message of
  the last failure, or \<^verbatim>\<open>Failed to load profile\<close> when that message is empty.
\<close>

theorem signIn_profile_fetch_fails:
  assumes "auth = Data (Some uid)"
      and "failure (fetch 0) = Some e0" "failure (fetch 1) = Some e1" "failure (fetch 2) = Some e2"
  shows "signIn email password auth fetch w =
           (Inl (new_Error (if e_message e2 = [] then ''Failed to load profile'' else e_message e2)),
            w\<lparr>session := None, store_user := None,
              calls := calls w @ [SignInWithPassword email password,
                                  SelectProfile uid, Delay 1000,
                                  SelectProfile uid, Delay 2000,
                                  SelectProfile uid,
                                  SignOut, SignOut, SetUser None]\<rparr>)"
  using assms(1)
  by (simp add: signIn_def signIn_try_def Let_def fetch_loop_three_failures [OF assms(2-4)]
        signIn_catch_def new_Error_def message_or_def auth_signOut_def set_user_def emit_def)

theorem signIn_profile_fetch_fails_witness:
  "signIn ''ann@example.org'' ''secret'' (Data (Some ''u1'')) fetch_always_fails empty_world
     = (Inl (new_Error ''JSON object requested, multiple (or no) rows returned''),
        \<lparr>session = None, identities = [], profiles = [], store_user = None,
         calls = [SignInWithPassword ''ann@example.org'' ''secret'',
                  SelectProfile ''u1'', Delay 1000, SelectProfile ''u1'', Delay 2000,
                  SelectProfile ''u1'', SignOut, SignOut, SetUser None]\<rparr>)"
  using signIn_profile_fetch_fails [of "Data (Some ''u1'')" "''u1''" fetch_always_fails
      no_rows_error no_rows_error no_rows_error "''ann@example.org''" "''secret''" empty_world]
  by (simp add: fetch_always_fails_def no_rows_error_def empty_world_def)

text \<open>
  C1, as it is written, fails: the error thrown is not the error of the last failed
  attempt. Its class and its code are gone.
\<close>

theorem signIn_throws_last_error_counterexample:
  "fst (signIn ''ann@example.org'' ''secret'' (Data (Some ''u1'')) fetch_always_fails empty_world)
     \<noteq> Inl no_rows_error"
proof -
  have "fetch_profile_loop ''u1'' fetch_always_fails 0 None v
          = (None, Some no_rows_error,
             v\<lparr>calls := calls v @ [SelectProfile ''u1'', Delay 1000, SelectProfile ''u1'', Delay 2000,
                                   SelectProfile ''u1'']\<rparr>)" for v
    by (rule fetch_loop_three_failures) (simp_all add: fetch_always_fails_def)
  then show ?thesis
    by (simp add: signIn_def signIn_try_def signIn_catch_def Let_def message_or_def new_Error_def
          no_rows_error_def)
qed

lemma insert_loop_end:
  "insert_profile_loop row ins 3 l v = (Some l, v)"
  by (subst insert_profile_loop.simps) (simp add: maxRetries_def)

lemma insert_loop_last:
  assumes "failure (ins 2) = Some e2"
  shows "insert_profile_loop row ins 2 l v = (Some (Some e2), emit (InsertProfile row) v)"
  using assms
  by (subst insert_profile_loop.simps)
     (cases "ins 2"; simp add: maxRetries_def Let_def insert_loop_end)

lemma insert_loop_retry:
  assumes "failure (ins n) = Some e" "n + 1 < maxRetries"
  shows "insert_profile_loop row ins n l v
           = insert_profile_loop row ins (n + 1) (Some e)
               (emit (Delay (1000 * (n + 1))) (emit (InsertProfile row) v))"
  using assms
  by (subst insert_profile_loop.simps) (cases "ins n"; simp add: Let_def)

lemma insert_loop_three_failures:
  assumes "failure (ins 0) = Some e0" "failure (ins 1) = Some e1" "failure (ins 2) = Some e2"
  shows "insert_profile_loop row ins 0 lastError w =
           (Some (Some e2),
            w\<lparr>calls := calls w @ [InsertProfile row, Delay 1000, InsertProfile row, Delay 2000,
                                   InsertProfile row]\<rparr>)"
proof -
  have "insert_profile_loop row ins 0 lastError w
          = insert_profile_loop row ins 1 (Some e0)
              (emit (Delay 1000) (emit (InsertProfile row) w))"
    using insert_loop_retry [of ins 0 e0 row lastError w] assms(1) by (simp add: maxRetries_def)
  also have "\<dots> = insert_profile_loop row ins 2 (Some e1)
              (emit (Delay 2000) (emit (InsertProfile row)
                 (emit (Delay 1000) (emit (InsertProfile row) w))))"
    using insert_loop_retry [of ins 1 e1 row "Some e0"] assms(2)
    by (simp add: maxRetries_def numeral_2_eq_2)
  also have "\<dots> = (Some (Some e2), emit (InsertProfile row) (emit (Delay 2000) (emit (InsertProfile row)
                 (emit (Delay 1000) (emit (InsertProfile row) w)))))"
    using assms(3) by (simp add: insert_loop_last [where ins = ins and ?e2.0 = e2])
  finally show ?thesis by (simp add: emit_def)
qed

text \<open>
  C3. When \<^verbatim>\<open>supabase.auth.signUp\<close> created an identity and the three inserts of the
  profile row all fail, \<^verbatim>\<open>signUp\<close> throws an error, and the world it leaves holds
  the new identity: the only calls made are the sign-up, the three inserts and the two
  waits, and no profile row was added.
\<close>

theorem signUp_profile_insert_fails:
  assumes "auth = Data (Some uid)"
      and "failure (ins 0) = Some e0" "failure (ins 1) = Some e1" "failure (ins 2) = Some e2"
  shows "signUp email password fullName auth ins w =
           (Inl (new_Error (if e_message e2 = [] then ''Failed to create profile'' else e_message e2)),
            w\<lparr>identities := identities w @ [uid],
              calls := calls w @ [AuthSignUp email password fullName,
                                  InsertProfile (new_profile_row uid fullName), Delay 1000,
                                  InsertProfile (new_profile_row uid fullName), Delay 2000,
                                  InsertProfile (new_profile_row uid fullName)]\<rparr>)"
  using assms(1)
  by (simp add: signUp_def signUp_try_def Let_def insert_loop_three_failures [OF assms(2-4)]
        signUp_catch_def new_Error_def message_or_def emit_def)

theorem signUp_profile_insert_fails_witness:
  "signUp ''ann@example.org'' ''secret'' ''Ann'' (Data (Some ''u1'')) insert_always_fails empty_world
     = (Inl (new_Error ''JSON object requested, multiple (or no) rows returned''),
        \<lparr>session = None, identities = [''u1''], profiles = [], store_user = None,
         calls = [AuthSignUp ''ann@example.org'' ''secret'' ''Ann'',
                  InsertProfile (new_profile_row ''u1'' ''Ann''), Delay 1000,
                  InsertProfile (new_profile_row ''u1'' ''Ann''), Delay 2000,
                  InsertProfile (new_profile_row ''u1'' ''Ann'')]\<rparr>)"
  using signUp_profile_insert_fails [of "Data (Some ''u1'')" "''u1''" insert_always_fails
      no_rows_error no_rows_error no_rows_error "''ann@example.org''" "''secret''" "''Ann''" empty_world]
  by (simp add: insert_always_fails_def no_rows_error_def empty_world_def)

lemma insert_loop_profiles:
  "profiles (snd (insert_profile_loop row ins n l w)) = profiles w
   \<or> profiles (snd (insert_profile_loop row ins n l w)) = profiles w @ [row]"
proof (induction row ins n l w rule: insert_profile_loop.induct)
  case (1 row ins retryCount lastError w)
  show ?case
  proof (cases "retryCount < maxRetries")
    case False
    then show ?thesis by (subst (1 2) insert_profile_loop.simps) simp
  next
    case True
    note lt = this
    show ?thesis
    proof (cases "ins retryCount")
      case (Data u)
      with lt show ?thesis
        by (subst (1 2) insert_profile_loop.simps) (simp add: Let_def emit_def)
    next
      case (ErrorReturned e)
      with lt "1.IH"(1,2) [OF lt refl ErrorReturned] show ?thesis
        by (subst (1 2) insert_profile_loop.simps) (auto simp: Let_def emit_def)
    next
      case (Thrown e)
      with lt "1.IH"(3,4) [OF lt refl Thrown] show ?thesis
        by (subst (1 2) insert_profile_loop.simps) (auto simp: Let_def emit_def)
    qed
  qed
qed

text \<open>
  C10. Whatever the backend answers, \<^verbatim>\<open>signUp\<close> adds no profile row or one row, for
  the new identity and the given name, with role worker: every row of the table that was
  not there before has role worker.
\<close>

theorem signUp_profile_role_worker:
  "(profiles (snd (signUp email password fullName auth ins w)) = profiles w
    \<or> (\<exists>uid. profiles (snd (signUp email password fullName auth ins w))
              = profiles w @ [\<lparr>p_id = uid, p_full_name = fullName, p_role = worker\<rparr>]))
   \<and> (\<forall>p \<in> set (profiles (snd (signUp email password fullName auth ins w))).
         p \<in> set (profiles w) \<or> p_role p = worker)"
proof -
  have main: "profiles (snd (signUp email password fullName auth ins w)) = profiles w
    \<or> (\<exists>uid. profiles (snd (signUp email password fullName auth ins w))
              = profiles w @ [\<lparr>p_id = uid, p_full_name = fullName, p_role = worker\<rparr>])"
  proof (cases auth)
    case (Data d)
    show ?thesis
    proof (cases d)
      case None
      with Data show ?thesis
        by (simp add: signUp_def signUp_try_def Let_def emit_def)
    next
      case (Some uid)
      let ?w1 = "(emit (AuthSignUp email password fullName) w)\<lparr>identities :=
                   identities (emit (AuthSignUp email password fullName) w) @ [uid]\<rparr>"
      obtain r w2 where lp: "insert_profile_loop (new_profile_row uid fullName) ins 0 None ?w1 = (r, w2)"
        by (cases "insert_profile_loop (new_profile_row uid fullName) ins 0 None ?w1") auto
      have "profiles w2 = profiles ?w1 \<or> profiles w2 = profiles ?w1 @ [new_profile_row uid fullName]"
        using insert_loop_profiles [of "new_profile_row uid fullName" ins 0 None ?w1] lp by simp
      then have "profiles w2 = profiles w \<or> profiles w2 = profiles w @ [new_profile_row uid fullName]"
        by (simp add: emit_def)
      moreover have "snd (signUp email password fullName auth ins w) = w2"
        using Data Some lp
        by (cases r) (simp_all add: signUp_def signUp_try_def Let_def)
      ultimately show ?thesis by (auto simp: new_profile_row_def)
    qed
  next
    case (ErrorReturned e)
    then show ?thesis by (simp add: signUp_def signUp_try_def Let_def emit_def)
  next
    case (Thrown e)
    then show ?thesis by (simp add: signUp_def signUp_try_def Let_def emit_def)
  qed
  from main show ?thesis by auto
qed

lemma signUp_second_ok:
  "profiles (snd (signUp ''ann@example.org'' ''secret'' ''Ann'' (Data (Some ''u1'')) insert_second_ok
       empty_world)) = [new_profile_row ''u1'' ''Ann'']"
  by code_simp

theorem signUp_profile_role_worker_witness:
  "profiles (snd (signUp ''ann@example.org'' ''secret'' ''Ann'' (Data (Some ''u1'')) insert_second_ok
       empty_world)) = [new_profile_row ''u1'' ''Ann'']
   \<and> p_role (new_profile_row ''u1'' ''Ann'') = worker"
  using signUp_profile_role_worker [of "''ann@example.org''" "''secret''" "''Ann''"
      "Data (Some ''u1'')" insert_second_ok empty_world] signUp_second_ok
  by (simp add: empty_world_def)

subsection \<open>Attachment upload\<close>

lemma uploadFile_attachments:
  "attachments (snd (uploadFile publicUrl user_id taskId j w))
     = attachments w @ (if succeeds j then [attachment_row publicUrl user_id taskId j] else [])"
  by (cases "j_upload j"; cases "j_insert j") (simp_all add: uploadFile_def succeeds_def Let_def)

lemma upload_all_attachments:
  "attachments (snd (upload_all publicUrl user_id taskId js w))
     = attachments w @ map (attachment_row publicUrl user_id taskId) (filter succeeds js)"
proof (induction js arbitrary: w)
  case Nil
  show ?case by simp
next
  case (Cons j js)
  obtain r w1 where 1: "uploadFile publicUrl user_id taskId j w = (r, w1)"
    by (cases "uploadFile publicUrl user_id taskId j w") auto
  obtain rs w2 where 2: "upload_all publicUrl user_id taskId js w1 = (rs, w2)"
    by (cases "upload_all publicUrl user_id taskId js w1") auto
  have "attachments w1
          = attachments w @ (if succeeds j then [attachment_row publicUrl user_id taskId j] else [])"
    using uploadFile_attachments [of publicUrl user_id taskId j w] 1 by simp
  moreover have "attachments w2
          = attachments w1 @ map (attachment_row publicUrl user_id taskId) (filter succeeds js)"
    using Cons.IH [of w1] 2 by simp
  ultimately show ?case using 1 2 by simp
qed

lemma uploadFiles_task_modal_attachments:
  "attachments (snd (uploadFiles_task_modal publicUrl user taskId s w))
     = attachments w @ map (attachment_row publicUrl (p_id user) taskId) (filter succeeds (newFiles s))"
proof (cases "newFiles s = []")
  case True
  then show ?thesis by (simp add: uploadFiles_task_modal_def)
next
  case False
  obtain rs w1 where 1: "upload_all publicUrl (p_id user) taskId (newFiles s) w = (rs, w1)"
    by (cases "upload_all publicUrl (p_id user) taskId (newFiles s) w") auto
  have "snd (uploadFiles_task_modal publicUrl user taskId s w) = w1"
    using False 1 by (simp add: uploadFiles_task_modal_def)
  then show ?thesis
    using upload_all_attachments [of publicUrl "p_id user" taskId "newFiles s" w] 1 by simp
qed

lemma uploadFiles_loop_attachments:
  "attachments (snd (uploadFiles_loop publicUrl user_id taskId js w))
     = attachments w @ map (attachment_row publicUrl user_id taskId)
         (filter succeeds (takeWhile (\<lambda>j. \<not> stops_loop j) js))"
proof (induction js arbitrary: w)
  case Nil
  show ?case by simp
next
  case (Cons j js)
  show ?case
    by (cases "j_upload j"; cases "j_insert j")
       (simp_all add: Cons.IH succeeds_def stops_loop_def Let_def)
qed

lemma uploadFiles_attachments:
  "attachments (snd (uploadFiles publicUrl (Some u) taskId s w))
     = attachments w @ map (attachment_row publicUrl (p_id u) taskId)
         (filter succeeds (takeWhile (\<lambda>j. \<not> stops_loop j) (files s)))"
proof -
  have "snd (uploadFiles publicUrl (Some u) taskId s w)
          = snd (uploadFiles_loop publicUrl (p_id u) taskId (files s) w)"
    by (cases "files s = []") (auto simp: uploadFiles_def split: prod.splits sum.splits)
  then show ?thesis by (simp add: uploadFiles_loop_attachments)
qed

text \<open>
  C2. Through \<^verbatim>\<open>Promise.all\<close>, in CreateTaskModal and in the task modal of the Tasks
  page, the rows added are those of every file whose own upload and insert succeeded,
  whichever other file failed, before or after it. The \<^verbatim>\<open>uploadFiles\<close> of
  components/TaskDetailsModal does not do so: of three files of which the second fails to
  upload and the third succeeds on its own, it inserts the row of the first alone, where
  the task modal inserts the rows of the first and the third.
\<close>

theorem uploadFiles_stops_at_first_failure:
  "mset (attachments (snd (upload_all publicUrl user_id taskId js w)))
     = mset (attachments w) + mset (map (attachment_row publicUrl user_id taskId) (filter succeeds js))
   \<and> mset (attachments (snd (uploadFiles_task_modal publicUrl user taskId s w)))
     = mset (attachments w)
       + mset (map (attachment_row publicUrl (p_id user) taskId) (filter succeeds (newFiles s)))
   \<and> files three_files = [job ''a.txt'' (Data ()), job ''b.txt'' (ErrorReturned storage_error),
                           job ''c.txt'' (Data ())]
   \<and> succeeds (job ''a.txt'' (Data ()))
   \<and> failure (j_upload (job ''b.txt'' (ErrorReturned storage_error))) = Some storage_error
   \<and> succeeds (job ''c.txt'' (Data ()))
   \<and> attachments (snd (uploadFiles id (Some (example_profile ''ann'' worker)) ''7''
         three_files no_backend_rows))
     = [attachment_row id ''ann'' ''7'' (job ''a.txt'' (Data ()))]
   \<and> attachment_row id ''ann'' ''7'' (job ''c.txt'' (Data ()))
       \<notin> set (attachments (snd (uploadFiles id (Some (example_profile ''ann'' worker)) ''7''
                 three_files no_backend_rows)))
   \<and> attachments (snd (uploadFiles_task_modal id (example_profile ''ann'' worker) ''7''
         three_new_files no_backend_rows))
     = [attachment_row id ''ann'' ''7'' (job ''a.txt'' (Data ())),
        attachment_row id ''ann'' ''7'' (job ''c.txt'' (Data ()))]"
proof (intro conjI)
  show "mset (attachments (snd (upload_all publicUrl user_id taskId js w)))
     = mset (attachments w) + mset (map (attachment_row publicUrl user_id taskId) (filter succeeds js))"
    by (simp add: upload_all_attachments)
  show "mset (attachments (snd (uploadFiles_task_modal publicUrl user taskId s w)))
     = mset (attachments w)
       + mset (map (attachment_row publicUrl (p_id user) taskId) (filter succeeds (newFiles s)))"
    by (simp add: uploadFiles_task_modal_attachments)
  show "files three_files = [job ''a.txt'' (Data ()), job ''b.txt'' (ErrorReturned storage_error),
                           job ''c.txt'' (Data ())]"
    by (simp add: three_files_def)
  show "succeeds (job ''a.txt'' (Data ()))" "succeeds (job ''c.txt'' (Data ()))"
    by (simp_all add: succeeds_def job_def)
  show "failure (j_upload (job ''b.txt'' (ErrorReturned storage_error))) = Some storage_error"
    by (simp add: job_def)
  have seq: "attachments (snd (uploadFiles id (Some (example_profile ''ann'' worker)) ''7''
         three_files no_backend_rows))
     = [attachment_row id ''ann'' ''7'' (job ''a.txt'' (Data ()))]"
    by (simp add: uploadFiles_attachments three_files_def no_backend_rows_def succeeds_def
          stops_loop_def job_def example_profile_def)
  show "attachments (snd (uploadFiles id (Some (example_profile ''ann'' worker)) ''7''
         three_files no_backend_rows))
     = [attachment_row id ''ann'' ''7'' (job ''a.txt'' (Data ()))]"
    by (rule seq)
  show "attachment_row id ''ann'' ''7'' (job ''c.txt'' (Data ()))
       \<notin> set (attachments (snd (uploadFiles id (Some (example_profile ''ann'' worker)) ''7''
                 three_files no_backend_rows)))"
    unfolding seq by (simp add: attachment_row_def job_def)
  show "attachments (snd (uploadFiles_task_modal id (example_profile ''ann'' worker) ''7''
         three_new_files no_backend_rows))
     = [attachment_row id ''ann'' ''7'' (job ''a.txt'' (Data ())),
        attachment_row id ''ann'' ''7'' (job ''c.txt'' (Data ()))]"
    by (simp add: uploadFiles_task_modal_attachments three_new_files_def three_files_def
          no_backend_rows_def succeeds_def job_def example_profile_def)
qed

subsection \<open>Debounced search\<close>

lemma debounce_general:
  assumes g: "\<And>due q x. callback due q x =
        (if g q then x\<lparr>issued := issued x @ [(due, q)]\<rparr> else x\<lparr>found_cleared := True\<rparr>)"
  shows "debounceTimer s = Some (t0 + 300, v0) \<Longrightarrow> search_text s = v0 \<Longrightarrow>
         distinct_adj (v0 # map snd evs) \<Longrightarrow>
         issued (then_quiet callback (type_keys callback evs s))
           = issued s @ filter (\<lambda>(t, v). g v) (quiet_periods ((t0, v0) # evs))"
proof (induction evs arbitrary: s t0 v0)
  case Nil
  then show ?case
    by (simp add: then_quiet_def g)
next
  case (Cons ev evs)
  obtain t v where ev: "ev = (t, v)" by (cases ev)
  let ?s' = "setSearchQuery callback t v s"
  from Cons.prems ev have neq: "v \<noteq> v0" and dist: "distinct_adj (v # map snd evs)"
    by auto
  note cb = g
  have timer: "debounceTimer ?s' = Some (t + 300, v)" and stext: "search_text ?s' = v"
    and iss: "issued ?s' = issued s @ (if t0 + 300 \<le> t \<and> g v0 then [(t0 + 300, v0)] else [])"
    using Cons.prems(1,2) neq
    by (auto simp: setSearchQuery_def run_due_def Let_def cb)
  have "issued (then_quiet callback (type_keys callback evs ?s'))
          = issued ?s' @ filter (\<lambda>(t, v). g v) (quiet_periods ((t, v) # evs))"
    by (rule Cons.IH [OF timer stext dist])
  then show ?case
    by (simp add: ev iss)
qed

lemma quiet_periods_texts: "snd ` set (quiet_periods evs) \<subseteq> snd ` set evs"
  by (induction evs rule: quiet_periods.induct) auto

lemma quiet_periods_mount:
  "g [] = False \<Longrightarrow>
   filter (\<lambda>(t, v). g v) (quiet_periods ((0, []) # evs)) = filter (\<lambda>(t, v). g v) (quiet_periods evs)"
  by (cases evs) auto

text \<open>
  C4, as the code has it, for the search boxes of Messages and of
  components/TaskDetailsModal. For changes of the search text, each a change indeed, and a
  \<^verbatim>\<open>trim\<close> that leaves the empty string empty, the queries sent are the quiet periods
  whose text is not blank, each at the end of its 300 ms and with the text then in the
  box: at most one query per quiet period, whatever the number of keystrokes, none for a
  superseded timer, and exactly one per quiet period when no text typed is blank.
\<close>

theorem debounced_search_queries:
  assumes blank: "trim [] = []"
      and changes: "distinct_adj ([] # map snd evs)"
  shows "issued (then_quiet (searchUsers trim (Some u))
                   (type_keys (searchUsers trim (Some u)) evs search_mount))
           = filter (\<lambda>(t, v). trim v \<noteq> []) (quiet_periods evs)
       \<and> issued (then_quiet (searchUsers_details trim)
                   (type_keys (searchUsers_details trim) evs search_mount))
           = filter (\<lambda>(t, v). trim v \<noteq> []) (quiet_periods evs)
       \<and> length (filter (\<lambda>(t, v). trim v \<noteq> []) (quiet_periods evs)) \<le> length (quiet_periods evs)
       \<and> ((\<forall>v \<in> snd ` set evs. trim v \<noteq> []) \<longrightarrow>
            filter (\<lambda>(t, v). trim v \<noteq> []) (quiet_periods evs) = quiet_periods evs)"
proof (intro conjI)
  have m: "debounceTimer search_mount = Some (0 + 300, [])" "search_text search_mount = []"
    "issued search_mount = []"
    by (simp_all add: search_mount_def)
  show "issued (then_quiet (searchUsers trim (Some u))
                   (type_keys (searchUsers trim (Some u)) evs search_mount))
           = filter (\<lambda>(t, v). trim v \<noteq> []) (quiet_periods evs)"
    using debounce_general [of "searchUsers trim (Some u)" "\<lambda>q. trim q \<noteq> []", OF _ m(1,2) changes]
      quiet_periods_mount [of "\<lambda>q. trim q \<noteq> []" evs]
    by (simp add: m(3) blank searchUsers_def)
  show "issued (then_quiet (searchUsers_details trim)
                   (type_keys (searchUsers_details trim) evs search_mount))
           = filter (\<lambda>(t, v). trim v \<noteq> []) (quiet_periods evs)"
    using debounce_general [of "searchUsers_details trim" "\<lambda>q. trim q \<noteq> []", OF _ m(1,2) changes]
      quiet_periods_mount [of "\<lambda>q. trim q \<noteq> []" evs]
    by (simp add: m(3) blank searchUsers_details_def)
  show "length (filter (\<lambda>(t, v). trim v \<noteq> []) (quiet_periods evs)) \<le> length (quiet_periods evs)"
    by simp
  show "(\<forall>v \<in> snd ` set evs. trim v \<noteq> []) \<longrightarrow>
            filter (\<lambda>(t, v). trim v \<noteq> []) (quiet_periods evs) = quiet_periods evs"
  proof
    assume a: "\<forall>v \<in> snd ` set evs. trim v \<noteq> []"
    have "\<forall>x \<in> set (quiet_periods evs). trim (snd x) \<noteq> []"
      using quiet_periods_texts [of evs] a by blast
    then show "filter (\<lambda>(t, v). trim v \<noteq> []) (quiet_periods evs) = quiet_periods evs"
      by (auto simp: filter_id_conv)
  qed
qed

theorem debounced_search_queries_witness:
  "issued (then_quiet (searchUsers ascii_trim (Some (example_profile ''ann'' worker)))
        (type_keys (searchUsers ascii_trim (Some (example_profile ''ann'' worker))) typed_ann search_mount))
     = [(1550, ''ann''), (2300, ''anna'')]
   \<and> issued (then_quiet (searchUsers_details ascii_trim)
        (type_keys (searchUsers_details ascii_trim) typed_ann search_mount))
     = [(1550, ''ann''), (2300, ''anna'')]
   \<and> quiet_periods typed_ann = [(1550, ''ann''), (2300, ''anna'')]"
proof -
  have b: "ascii_trim [] = []" by (simp add: ascii_trim_def)
  have d: "distinct_adj ([] # map snd typed_ann)" by (simp add: typed_ann_def)
  have q: "quiet_periods typed_ann = [(1550, ''ann''), (2300, ''anna'')]"
    by (simp add: typed_ann_def)
  have nb: "ascii_trim ''ann'' \<noteq> []" "ascii_trim ''anna'' \<noteq> []"
    by (simp_all add: ascii_trim_def ascii_space_def)
  show ?thesis
    using debounced_search_queries [of ascii_trim typed_ann "example_profile ''ann'' worker", OF b d]
      q nb by simp
qed

text \<open>
  C4, as it is written, fails: a text typed and erased again is followed by one quiet
  period and by no query.
\<close>

theorem debounced_search_one_query_counterexample:
  "length (quiet_periods typed_then_erased) = 1
   \<and> length (issued (then_quiet (searchUsers ascii_trim (Some (example_profile ''ann'' worker)))
        (type_keys (searchUsers ascii_trim (Some (example_profile ''ann'' worker)))
           typed_then_erased search_mount)))
      \<noteq> length (quiet_periods typed_then_erased)
   \<and> issued (then_quiet (searchUsers ascii_trim (Some (example_profile ''ann'' worker)))
        (type_keys (searchUsers ascii_trim (Some (example_profile ''ann'' worker)))
           typed_then_erased search_mount))
      = []"
  by (simp add: typed_then_erased_def search_mount_def setSearchQuery_def run_due_def
        searchUsers_def then_quiet_def ascii_trim_def Let_def)

end
